theory Spec2Isabelle
  imports Main "HOL-Library.Multiset"
begin

section \<open>Python values, exceptions and the library functions the program calls\<close>

text \<open>
  The program is \<^verbatim>\<open>src/app/main.py\<close>: a poller that runs a shell script on every
  configured host over SSH, parses the JSON it prints, and appends rows to four SQLite
  tables; and three read-only queries over those tables.

  Exceptions are values. \<open>TransportError\<close> stands for whatever paramiko, pywinrm or the
  socket layer raise; \<open>RetryError e\<close> is what tenacity's \<^verbatim>\<open>@retry\<close> raises once it
  gives up (the decorators in the source do not pass \<^verbatim>\<open>reraise=True\<close>), holding
  the exception \<open>e\<close> of the last attempt.
\<close>

datatype error =
    JSONDecodeError
  | TypeError
  | ValueError
  | OverflowError
  | AttributeError
  | RuntimeError string
  | TransportError string
  | RetryError error
  | NoResultFound
  | MultipleResultsFound

text \<open>
  What \<^verbatim>\<open>json.loads\<close> returns. Python floats are not modelled: \<open>'f\<close> is the type of
  float values, and every operation that makes or inspects one belongs to the runtime
  record below. A dict is an association list (looked up by its first match).
\<close>

datatype 'f json =
    JNull
  | JBool bool
  | JInt int
  | JFloat 'f
  | JStr string
  | JArr "'f json list"
  | JObj "(string \<times> 'f json) list"

text \<open>
  The library functions whose results depend on text or on floating point:
  \<^verbatim>\<open>json.loads\<close>, \<^verbatim>\<open>json.dumps\<close>, \<^verbatim>\<open>float(i)\<close> (OverflowError on a huge int),
  \<^verbatim>\<open>float(s)\<close> and \<^verbatim>\<open>int(s)\<close> (ValueError on bad text), \<^verbatim>\<open>bool(f)\<close>,
  \<^verbatim>\<open>int(f)\<close> (fails on nan and inf), \<^verbatim>\<open>str(v)\<close>, and whether a float is a
  NaN. They are parameters of the model; every theorem below holds for all of them.
\<close>

record 'f pyrt =
  rt_loads :: "string \<Rightarrow> error + 'f json"
  rt_dumps :: "'f json \<Rightarrow> string"
  rt_float_of_int :: "int \<Rightarrow> error + 'f"
  rt_float_of_str :: "string \<Rightarrow> error + 'f"
  rt_float_truthy :: "'f \<Rightarrow> bool"
  rt_int_of_float :: "'f \<Rightarrow> error + int"
  rt_int_of_str :: "string \<Rightarrow> error + int"
  rt_str :: "'f json \<Rightarrow> string"
  rt_isnan :: "'f \<Rightarrow> bool"

text \<open>\<^verbatim>\<open>v.get(k, d)\<close>: only a dict has the method.\<close>

definition dict_get :: "(string \<times> 'f json) list \<Rightarrow> string \<Rightarrow> 'f json \<Rightarrow> 'f json" where
  "dict_get kvs k d = (case map_of kvs k of None \<Rightarrow> d | Some v \<Rightarrow> v)"

fun py_get :: "'f json \<Rightarrow> string \<Rightarrow> 'f json \<Rightarrow> error + 'f json" where
  "py_get (JObj kvs) k d = Inr (dict_get kvs k d)"
| "py_get _ k d = Inl AttributeError"

text \<open>\<^verbatim>\<open>float(v)\<close> and \<^verbatim>\<open>int(v)\<close>: None, a list and a dict raise TypeError.\<close>

fun py_float :: "'f pyrt \<Rightarrow> 'f json \<Rightarrow> error + 'f" where
  "py_float rt (JFloat x) = Inr x"
| "py_float rt (JInt i) = rt_float_of_int rt i"
| "py_float rt (JBool b) = rt_float_of_int rt (if b then 1 else 0)"
| "py_float rt (JStr s) = rt_float_of_str rt s"
| "py_float rt _ = Inl TypeError"

fun py_int :: "'f pyrt \<Rightarrow> 'f json \<Rightarrow> error + int" where
  "py_int rt (JInt i) = Inr i"
| "py_int rt (JBool b) = Inr (if b then 1 else 0)"
| "py_int rt (JFloat x) = rt_int_of_float rt x"
| "py_int rt (JStr s) = rt_int_of_str rt s"
| "py_int rt _ = Inl TypeError"

text \<open>Truth value of a Python object, as \<^verbatim>\<open>if net\<close> and \<^verbatim>\<open>if disks:\<close> test it.\<close>

fun py_truthy :: "'f pyrt \<Rightarrow> 'f json \<Rightarrow> bool" where
  "py_truthy rt JNull = False"
| "py_truthy rt (JBool b) = b"
| "py_truthy rt (JInt i) = (i \<noteq> 0)"
| "py_truthy rt (JFloat x) = rt_float_truthy rt x"
| "py_truthy rt (JStr s) = (s \<noteq> [])"
| "py_truthy rt (JArr xs) = (xs \<noteq> [])"
| "py_truthy rt (JObj kvs) = (kvs \<noteq> [])"

section \<open>Connectors and their retry policy\<close>

text \<open>
  \<^verbatim>\<open>@retry(stop=stop_after_attempt(2), wait=wait_fixed(1))\<close>: tenacity calls the
  decorated function, counting attempts from 1. A call that returns ends the loop. After
  a call that raises, it gives up with \<open>RetryError\<close> when the attempt number has reached
  the bound, and otherwise sleeps the fixed wait and calls again. The body of attempt
  \<open>n\<close> is \<open>body n\<close>: each attempt does its own I/O. The result records the outcome,
  how many calls were made and the sleeps (in seconds) in the order they happened.
\<close>

record 'a retry_result =
  r_outcome :: "error + 'a"
  r_attempts :: nat
  r_sleeps :: "nat list"

function retry_loop :: "nat \<Rightarrow> nat \<Rightarrow> (nat \<Rightarrow> error + 'a) \<Rightarrow> nat \<Rightarrow> 'a retry_result" where
  "retry_loop stop_n wait_s body n =
     (case body n of
        Inr v \<Rightarrow> \<lparr>r_outcome = Inr v, r_attempts = n, r_sleeps = []\<rparr>
      | Inl e \<Rightarrow>
          if stop_n \<le> n
          then \<lparr>r_outcome = Inl (RetryError e), r_attempts = n, r_sleeps = []\<rparr>
          else (let r = retry_loop stop_n wait_s body (Suc n)
                in r\<lparr>r_sleeps := wait_s # r_sleeps r\<rparr>))"
  by pat_completeness auto
termination
  by (relation "measure (\<lambda>(stop_n, wait_s, body, n). stop_n - n)") auto

declare retry_loop.simps [simp del]

text \<open>
  One attempt of \<^verbatim>\<open>SSHClient.run\<close>, as the network decides it: loading the key,
  connecting (timeout 8), starting the command (timeout 20) or reading its output
  raises, or the command's standard output and standard error arrive (decoded, invalid
  bytes dropped). The \<^verbatim>\<open>finally\<close> clause closes the client either way.
\<close>

datatype ssh_attempt = SshRaised error | SshOutput string string

fun ssh_body :: "ssh_attempt \<Rightarrow> error + string" where
  "ssh_body (SshRaised e) = Inl e"
| "ssh_body (SshOutput out err) =
     (if err \<noteq> [] \<and> out = [] then Inl (RuntimeError err) else Inr out)"

definition SSHClient_run :: "(nat \<Rightarrow> ssh_attempt) \<Rightarrow> string retry_result" where
  "SSHClient_run io = retry_loop 2 1 (\<lambda>n. ssh_body (io n)) 1"

text \<open>
  One attempt of \<^verbatim>\<open>WinRMClient.run_ps\<close>: the session raises, or answers with a
  status code, standard output and standard error.
\<close>

datatype winrm_attempt = WinrmRaised error | WinrmResponse int string string

fun winrm_body :: "winrm_attempt \<Rightarrow> error + string" where
  "winrm_body (WinrmRaised e) = Inl e"
| "winrm_body (WinrmResponse status_code std_out std_err) =
     (if status_code \<noteq> 0 then Inl (RuntimeError std_err) else Inr std_out)"

definition WinRMClient_run_ps :: "(nat \<Rightarrow> winrm_attempt) \<Rightarrow> string retry_result" where
  "WinRMClient_run_ps io = retry_loop 2 1 (\<lambda>n. winrm_body (io n)) 1"

section \<open>Configuration and the tables\<close>

record SSHConfig =
  ssh_username :: string
  ssh_password :: "string option"
  ssh_private_key :: "string option"
  ssh_port :: int

record WinRMConfig =
  winrm_username :: string
  winrm_password :: string
  winrm_scheme :: string
  winrm_port :: int
  winrm_verify_ssl :: bool

record Host =
  h_name :: string
  h_ip :: string
  h_os :: string
  h_ssh :: "SSHConfig option"
  h_winrm :: "WinRMConfig option"

text \<open>
  The four tables of \<^verbatim>\<open>init_db\<close>, each a list of rows in insertion order (the order
  of the AUTOINCREMENT ids, which no query reads for \<^verbatim>\<open>samples\<close>, \<^verbatim>\<open>disks\<close> and
  \<^verbatim>\<open>extras\<close>), and the entry of \<^verbatim>\<open>sqlite_sequence\<close> for \<^verbatim>\<open>hosts\<close>: the largest
  id an INSERT into it has generated so far. The columns a query selects together are grouped: \<open>sample_cols\<close> is
  the select list of both sample queries, \<open>disk_cols\<close> that of the latest disks.
  Every metric column is nullable. \<open>ts\<close> always comes from \<^verbatim>\<open>int(time.time())\<close>.
\<close>

record host_row =
  hr_id :: int
  hr_name :: string
  hr_ip :: string
  hr_os :: string

record 'f sample_cols =
  sc_ts :: int
  sc_cpu :: "'f option"
  sc_mem_total :: "int option"
  sc_mem_avail :: "int option"
  sc_uptime :: "int option"
  sc_latency_ms :: "'f option"
  sc_net_rx_kbps :: "'f option"
  sc_net_tx_kbps :: "'f option"

record 'f sample_row =
  s_host_id :: int
  s_cols :: "'f sample_cols"

record 'f disk_cols =
  dc_device :: string
  dc_used_percent :: "'f option"
  dc_size_bytes :: int
  dc_free_bytes :: int
  dc_mount :: string

record 'f disk_row =
  d_host_id :: int
  d_ts :: int
  d_cols :: "'f disk_cols"

record extras_row =
  e_host_id :: int
  e_ts :: int
  e_payload :: string

record 'f store =
  t_hosts :: "host_row list"
  t_hosts_seq :: int
  t_samples :: "'f sample_row list"
  t_disks :: "'f disk_row list"
  t_extras :: "extras_row list"

definition empty_store :: "'f store" where
  "empty_store = \<lparr>t_hosts = [], t_hosts_seq = 0, t_samples = [], t_disks = [], t_extras = []\<rparr>"

text \<open>
  An SQLite INTEGER is a signed 64-bit value: the driver raises OverflowError when it
  is given a Python int outside that range as a statement parameter.
\<close>

definition sqlite_int :: "int \<Rightarrow> error + int" where
  "sqlite_int i = (if - (2 ^ 63) \<le> i \<and> i < 2 ^ 63 then Inr i else Inl OverflowError)"

fun sqlite_int_opt :: "int option \<Rightarrow> error + int option" where
  "sqlite_int_opt None = Inr None"
| "sqlite_int_opt (Some i) = (case sqlite_int i of Inl e \<Rightarrow> Inl e | Inr j \<Rightarrow> Inr (Some j))"

text \<open>A float parameter that is a NaN is stored as NULL.\<close>

definition sqlite_real :: "'f pyrt \<Rightarrow> 'f \<Rightarrow> 'f option" where
  "sqlite_real rt x = (if rt_isnan rt x then None else Some x)"

fun sqlite_real_opt :: "'f pyrt \<Rightarrow> 'f option \<Rightarrow> 'f option" where
  "sqlite_real_opt rt None = None"
| "sqlite_real_opt rt (Some x) = sqlite_real rt x"

subsection \<open>Registration (\<^verbatim>\<open>AgentlessPoller.__init__\<close>)\<close>

text \<open>
  \<^verbatim>\<open>INSERT OR IGNORE INTO hosts(name, ip, os)\<close> under \<^verbatim>\<open>name TEXT UNIQUE\<close>.
  SQLite first generates the id of the new row, one more than the larger of the
  recorded sequence value and the largest id in the table, and records it as the new
  sequence value; only then does it check the constraint. A row whose name is already
  in the table is dropped (its id is used up all the same), any other is appended.
\<close>

definition next_host_id :: "host_row list \<Rightarrow> int \<Rightarrow> int" where
  "next_host_id hs seq = max seq (fold max (map hr_id hs) 0) + 1"

definition insert_host_or_ignore :: "Host \<Rightarrow> 'f store \<Rightarrow> 'f store" where
  "insert_host_or_ignore h st =
     (let new_id = next_host_id (t_hosts st) (t_hosts_seq st) in
      if h_name h \<in> set (map hr_name (t_hosts st))
      then st\<lparr>t_hosts_seq := new_id\<rparr>
      else st\<lparr>t_hosts_seq := new_id,
              t_hosts := t_hosts st @
                [\<lparr>hr_id = new_id, hr_name = h_name h, hr_ip = h_ip h, hr_os = h_os h\<rparr>]\<rparr>)"

definition register_hosts :: "Host list \<Rightarrow> 'f store \<Rightarrow> 'f store" where
  "register_hosts hs st = fold insert_host_or_ignore hs st"

text \<open>
  \<^verbatim>\<open>SELECT id FROM hosts WHERE name=:n\<close> read with \<^verbatim>\<open>scalar_one()\<close>, which raises
  unless exactly one row comes back.
\<close>

definition select_host_id :: "host_row list \<Rightarrow> string \<Rightarrow> error + int" where
  "select_host_id hs n =
     (case filter (\<lambda>r. hr_name r = n) hs of
        [] \<Rightarrow> Inl NoResultFound
      | [r] \<Rightarrow> Inr (hr_id r)
      | _ \<Rightarrow> Inl MultipleResultsFound)"

section \<open>The poller\<close>

text \<open>
  What one call of \<^verbatim>\<open>poll_once\<close> gets from outside: the clock, the TCP probe
  (\<^verbatim>\<open>tcp_ping\<close> returns the elapsed milliseconds, or None on any error) and the SSH
  attempts against this host.
\<close>

record 'f poll_env =
  pe_time :: int
  pe_tcp_ping :: "string \<Rightarrow> int \<Rightarrow> 'f option"
  pe_ssh :: "nat \<Rightarrow> ssh_attempt"

text \<open>
  The local variables of \<^verbatim>\<open>poll_once\<close> that the commit reads. An exception inside
  the \<^verbatim>\<open>try\<close> block leaves the assignments made before it in place, so the block is
  a function from the variables to the exception (if any) and the variables after it.
\<close>

record 'f poll_vars =
  v_cpu :: "'f option"
  v_mem_total :: "int option"
  v_mem_avail :: "int option"
  v_uptime :: "int option"
  v_net_rx :: "'f option"
  v_net_tx :: "'f option"
  v_disks :: "'f json"
  v_extras_payload :: "string option"

definition init_vars :: "'f poll_vars" where
  "init_vars = \<lparr>v_cpu = None, v_mem_total = None, v_mem_avail = None, v_uptime = None,
                 v_net_rx = None, v_net_tx = None, v_disks = JArr [],
                 v_extras_payload = None\<rparr>"

definition and_then :: "error + 'a \<Rightarrow> ('a \<Rightarrow> error + 'b) \<Rightarrow> error + 'b" where
  "and_then r k = (case r of Inl e \<Rightarrow> Inl e | Inr x \<Rightarrow> k x)"

definition on_ok :: "error + 'a \<Rightarrow> 'v \<Rightarrow> ('a \<Rightarrow> error option \<times> 'v) \<Rightarrow> error option \<times> 'v" where
  "on_ok r v k = (case r of Inl e \<Rightarrow> (Some e, v) | Inr x \<Rightarrow> k x)"

text \<open>\<^verbatim>\<open>float(net.get(key, 0)) if net else None\<close>\<close>

definition net_total :: "'f pyrt \<Rightarrow> 'f json \<Rightarrow> string \<Rightarrow> error + 'f option" where
  "net_total rt net key =
     (if py_truthy rt net
      then and_then (py_get net key (JInt 0)) (\<lambda>x.
           and_then (py_float rt x) (\<lambda>f. Inr (Some f)))
      else Inr None)"

text \<open>Lines 352 to 362: the statements after \<^verbatim>\<open>data = json.loads(raw)\<close>, in order.\<close>

definition parse_payload :: "'f pyrt \<Rightarrow> 'f json \<Rightarrow> 'f poll_vars \<Rightarrow> error option \<times> 'f poll_vars" where
  "parse_payload rt data v0 =
     on_ok (and_then (py_get data ''cpu_percent'' (JInt 0)) (py_float rt)) v0 (\<lambda>cpu.
     let v1 = v0\<lparr>v_cpu := Some cpu\<rparr> in
     on_ok (and_then (py_get data ''mem_total_bytes'' (JInt 0)) (py_int rt)) v1 (\<lambda>mt.
     let v2 = v1\<lparr>v_mem_total := Some mt\<rparr> in
     on_ok (and_then (py_get data ''mem_available_bytes'' (JInt 0)) (py_int rt)) v2 (\<lambda>ma.
     let v3 = v2\<lparr>v_mem_avail := Some ma\<rparr> in
     on_ok (and_then (py_get data ''uptime_seconds'' (JInt 0)) (py_int rt)) v3 (\<lambda>up.
     let v4 = v3\<lparr>v_uptime := Some up\<rparr> in
     on_ok (py_get data ''disks'' (JArr [])) v4 (\<lambda>ds.
     let v5 = v4\<lparr>v_disks := ds\<rparr> in
     on_ok (py_get data ''extras'' (JObj [])) v5 (\<lambda>ex.
     on_ok (py_get ex ''net'' (JObj [])) v5 (\<lambda>net.
     on_ok (net_total rt net ''total_rx_kbps'') v5 (\<lambda>rx.
     let v6 = v5\<lparr>v_net_rx := rx\<rparr> in
     on_ok (net_total rt net ''total_tx_kbps'') v6 (\<lambda>tx.
     let v7 = v6\<lparr>v_net_tx := tx\<rparr> in
     (None, v7\<lparr>v_extras_payload := Some (rt_dumps rt ex)\<rparr>))))))))))"

text \<open>Lines 350 to 362: decode the script's output, then extract the fields.\<close>

definition parse_output :: "'f pyrt \<Rightarrow> string \<Rightarrow> 'f poll_vars \<Rightarrow> error option \<times> 'f poll_vars" where
  "parse_output rt raw v0 = on_ok (rt_loads rt raw) v0 (\<lambda>data. parse_payload rt data v0)"

text \<open>
  The \<^verbatim>\<open>try\<close> block of a Linux host: run the script (with the connector's retries)
  and parse what it printed.
\<close>

definition linux_collect ::
  "'f pyrt \<Rightarrow> (nat \<Rightarrow> ssh_attempt) \<Rightarrow> 'f poll_vars \<Rightarrow> error option \<times> 'f poll_vars" where
  "linux_collect rt io v0 =
     on_ok (r_outcome (SSHClient_run io)) v0 (\<lambda>raw. parse_output rt raw v0)"

subsection \<open>The commit transaction\<close>

definition insert_sample ::
  "'f pyrt \<Rightarrow> int \<Rightarrow> int \<Rightarrow> 'f option \<Rightarrow> 'f poll_vars \<Rightarrow> 'f store \<Rightarrow> error + 'f store" where
  "insert_sample rt hid ts latency v st =
     and_then (sqlite_int_opt (v_mem_total v)) (\<lambda>mt.
     and_then (sqlite_int_opt (v_mem_avail v)) (\<lambda>ma.
     and_then (sqlite_int_opt (v_uptime v)) (\<lambda>up.
     Inr (st\<lparr>t_samples := t_samples st @
            [\<lparr>s_host_id = hid,
              s_cols = \<lparr>sc_ts = ts, sc_cpu = sqlite_real_opt rt (v_cpu v),
                        sc_mem_total = mt, sc_mem_avail = ma, sc_uptime = up,
                        sc_latency_ms = sqlite_real_opt rt latency,
                        sc_net_rx_kbps = sqlite_real_opt rt (v_net_rx v),
                        sc_net_tx_kbps = sqlite_real_opt rt (v_net_tx v)\<rparr>\<rparr>]\<rparr>))))"

text \<open>
  One pass of \<^verbatim>\<open>for d in disks\<close>: the parameter dict is built first (the five
  coercions, in the order written), then the INSERT binds the two integers.
\<close>

definition disk_row :: "'f pyrt \<Rightarrow> int \<Rightarrow> int \<Rightarrow> 'f json \<Rightarrow> error + 'f disk_row" where
  "disk_row rt hid ts d =
     and_then (py_get d ''device'' JNull) (\<lambda>dev.
     and_then (and_then (py_get d ''used_percent'' (JInt 0)) (py_float rt)) (\<lambda>upct.
     and_then (and_then (py_get d ''size_bytes'' (JInt 0)) (py_int rt)) (\<lambda>sz.
     and_then (and_then (py_get d ''free_bytes'' (JInt 0)) (py_int rt)) (\<lambda>free.
     and_then (py_get d ''mount'' (JStr [])) (\<lambda>mnt.
     and_then (sqlite_int sz) (\<lambda>sz'.
     and_then (sqlite_int free) (\<lambda>free'.
     Inr \<lparr>d_host_id = hid, d_ts = ts,
          d_cols = \<lparr>dc_device = rt_str rt dev, dc_used_percent = sqlite_real rt upct,
                    dc_size_bytes = sz',
                    dc_free_bytes = free', dc_mount = rt_str rt mnt\<rparr>\<rparr>)))))))"

fun insert_disk_rows :: "'f pyrt \<Rightarrow> int \<Rightarrow> int \<Rightarrow> 'f json list \<Rightarrow> 'f store \<Rightarrow> error + 'f store" where
  "insert_disk_rows rt hid ts [] st = Inr st"
| "insert_disk_rows rt hid ts (d # ds) st =
     and_then (disk_row rt hid ts d) (\<lambda>row.
     insert_disk_rows rt hid ts ds (st\<lparr>t_disks := t_disks st @ [row]\<rparr>))"

text \<open>
  What a \<^verbatim>\<open>for\<close> loop iterates over: the items of a list, the characters of a
  string, the keys of a dict; anything else is not iterable.
\<close>

fun py_iter :: "'f json \<Rightarrow> error + 'f json list" where
  "py_iter (JArr xs) = Inr xs"
| "py_iter (JStr s) = Inr (map (\<lambda>c. JStr [c]) s)"
| "py_iter (JObj kvs) = Inr (map (\<lambda>kv. JStr (fst kv)) kvs)"
| "py_iter _ = Inl TypeError"

definition insert_disks :: "'f pyrt \<Rightarrow> int \<Rightarrow> int \<Rightarrow> 'f json \<Rightarrow> 'f store \<Rightarrow> error + 'f store" where
  "insert_disks rt hid ts ds st =
     (if py_truthy rt ds
      then and_then (py_iter ds) (\<lambda>items. insert_disk_rows rt hid ts items st)
      else Inr st)"

definition insert_extras :: "int \<Rightarrow> int \<Rightarrow> string option \<Rightarrow> 'f store \<Rightarrow> 'f store" where
  "insert_extras hid ts p st =
     (case p of
        None \<Rightarrow> st
      | Some payload \<Rightarrow>
          if payload \<noteq> []
          then st\<lparr>t_extras := t_extras st @ [\<lparr>e_host_id = hid, e_ts = ts, e_payload = payload\<rparr>]\<rparr>
          else st)"

text \<open>
  The \<^verbatim>\<open>with self.engine.begin()\<close> block. It is outside the \<^verbatim>\<open>try\<close>: an exception
  in it rolls the transaction back and leaves \<^verbatim>\<open>poll_once\<close>.
\<close>

definition commit_tx ::
  "'f pyrt \<Rightarrow> Host \<Rightarrow> int \<Rightarrow> 'f option \<Rightarrow> 'f poll_vars \<Rightarrow> 'f store \<Rightarrow> error + 'f store" where
  "commit_tx rt host ts latency v st =
     and_then (select_host_id (t_hosts st) (h_name host)) (\<lambda>hid.
     and_then (insert_sample rt hid ts latency v st) (\<lambda>st1.
     and_then (insert_disks rt hid ts (v_disks v) st1) (\<lambda>st2.
     Inr (insert_extras hid ts (v_extras_payload v) st2))))"

definition commit ::
  "'f pyrt \<Rightarrow> Host \<Rightarrow> int \<Rightarrow> 'f option \<Rightarrow> 'f poll_vars \<Rightarrow> 'f store \<Rightarrow> error option \<times> 'f store" where
  "commit rt host ts latency v st =
     (case commit_tx rt host ts latency v st of
        Inl e \<Rightarrow> (Some e, st)
      | Inr st' \<Rightarrow> (None, st'))"

text \<open>
  \<^verbatim>\<open>poll_once\<close>. The result is the exception that leaves the call (None when it
  returns) and the tables afterwards. The exception of the \<^verbatim>\<open>try\<close> block is printed
  and dropped; the Windows branch returns before the commit.
\<close>

definition poll_once :: "'f pyrt \<Rightarrow> 'f poll_env \<Rightarrow> Host \<Rightarrow> 'f store \<Rightarrow> error option \<times> 'f store" where
  "poll_once rt env host st =
     (let ts = pe_time env;
          latency = pe_tcp_ping env (h_ip host) (if h_os host = ''linux'' then 22 else 3389)
      in if h_os host = ''linux'' \<and> h_ssh host \<noteq> None
         then commit rt host ts latency (snd (linux_collect rt (pe_ssh env) init_vars)) st
         else if h_os host = ''windows'' \<and> h_winrm host \<noteq> None
         then (None, st)
         else commit rt host ts latency init_vars st)"

section \<open>The queries\<close>

text \<open>
  \<^verbatim>\<open>ORDER BY ts ASC\<close> is a stable sort of the selected rows by \<open>ts\<close>, and
  \<^verbatim>\<open>ORDER BY ts DESC LIMIT 1\<close> is a row of largest \<open>ts\<close> (here the one
  inserted last among equals; SQL leaves the choice open, and the theorems below do not
  depend on it). \<^verbatim>\<open>MAX(ts)\<close> of no rows is NULL, which equals no \<open>ts\<close>.
\<close>

definition latest_row :: "('a \<Rightarrow> int) \<Rightarrow> 'a list \<Rightarrow> 'a option" where
  "latest_row key rows =
     foldl (\<lambda>best r. case best of
                        None \<Rightarrow> Some r
                      | Some b \<Rightarrow> if key b \<le> key r then Some r else Some b)
           None rows"

definition max_ts :: "int list \<Rightarrow> int option" where
  "max_ts xs = (case xs of [] \<Rightarrow> None | x # ys \<Rightarrow> Some (fold max ys x))"

record 'f series_result =
  sr_samples :: "'f sample_cols list"
  sr_disks :: "(int \<times> 'f disk_cols) list"

definition api_series :: "'f store \<Rightarrow> int \<Rightarrow> int \<Rightarrow> int \<Rightarrow> error + 'f series_result" where
  "api_series st now host_id minutes =
     (let t_from = now - minutes * 60 in
      and_then (sqlite_int host_id) (\<lambda>hid.
      and_then (sqlite_int t_from) (\<lambda>t.
      Inr \<lparr>sr_samples =
             sort_key sc_ts
               (map s_cols (filter (\<lambda>r. s_host_id r = hid \<and> t \<le> sc_ts (s_cols r)) (t_samples st))),
           sr_disks =
             sort_key fst
               (map (\<lambda>d. (d_ts d, d_cols d))
                  (filter (\<lambda>d. d_host_id d = hid \<and> t \<le> d_ts d) (t_disks st)))\<rparr>)))"

record 'f latest_result =
  lr_last :: "'f sample_cols option"
  lr_extras :: "'f json"
  lr_disks :: "'f disk_cols list"

text \<open>\<^verbatim>\<open>json.loads(ex) if ex else {}\<close>\<close>

definition decode_extras :: "'f pyrt \<Rightarrow> string option \<Rightarrow> error + 'f json" where
  "decode_extras rt ex =
     (case ex of
        None \<Rightarrow> Inr (JObj [])
      | Some payload \<Rightarrow> if payload \<noteq> [] then rt_loads rt payload else Inr (JObj []))"

definition api_latest :: "'f pyrt \<Rightarrow> 'f store \<Rightarrow> int \<Rightarrow> error + 'f latest_result" where
  "api_latest rt st host_id =
     and_then (sqlite_int host_id) (\<lambda>hid.
     let last = map_option s_cols
                  (latest_row (\<lambda>r. sc_ts (s_cols r))
                     (filter (\<lambda>r. s_host_id r = hid) (t_samples st)));
         ex = map_option e_payload
                (latest_row e_ts (filter (\<lambda>x. e_host_id x = hid) (t_extras st)));
         mx = max_ts (map d_ts (filter (\<lambda>d. d_host_id d = hid) (t_disks st)));
         ds = map d_cols
                (filter (\<lambda>d. d_host_id d = hid \<and> Some (d_ts d) = mx) (t_disks st))
     in and_then (decode_extras rt ex) (\<lambda>extras.
        Inr \<lparr>lr_last = last, lr_extras = extras, lr_disks = ds\<rparr>))"

section \<open>Example data\<close>

text \<open>
  A runtime for the examples, with floats written as the integers they equal. It
  answers as CPython does on the texts and values the examples use:
  \<^verbatim>\<open>json.loads\<close> on four texts, \<^verbatim>\<open>json.dumps\<close> on the two extras objects they hold,
  \<^verbatim>\<open>float\<close> and \<^verbatim>\<open>int\<close> on small integers, \<^verbatim>\<open>str\<close> on strings and None;
  no float of the examples is a NaN.
\<close>

definition example_output :: string where
  \<open>example_output = ''{"cpu_percent": 12, "extras": {"load": 3}}''\<close>

definition example_extras :: "int json" where
  "example_extras = JObj [(''load'', JInt 3)]"

definition example_extras_text :: string where
  \<open>example_extras_text = ''{"load": 3}''\<close>

definition null_cpu_output :: string where
  \<open>null_cpu_output = ''{"cpu_percent": null}''\<close>

definition example_rt :: "int pyrt" where
  "example_rt =
     \<lparr>rt_loads = (\<lambda>s. if s = example_output
                        then Inr (JObj [(''cpu_percent'', JInt 12), (''extras'', example_extras)])
                        else if s = example_extras_text then Inr example_extras
                        else if s = null_cpu_output then Inr (JObj [(''cpu_percent'', JNull)])
                        else if s = ''{}'' then Inr (JObj [])
                        else Inl JSONDecodeError),
      rt_dumps = (\<lambda>j. if j = example_extras then example_extras_text else ''{}''),
      rt_float_of_int = (\<lambda>i. Inr i),
      rt_float_of_str = (\<lambda>s. Inl ValueError),
      rt_float_truthy = (\<lambda>x. x \<noteq> 0),
      rt_int_of_float = (\<lambda>x. Inr x),
      rt_int_of_str = (\<lambda>s. Inl ValueError),
      rt_str = (\<lambda>j. case j of JStr s \<Rightarrow> s | _ \<Rightarrow> ''None''),
      rt_isnan = (\<lambda>x. False)\<rparr>"

definition web1 :: Host where
  "web1 = \<lparr>h_name = ''web-1'', h_ip = ''10.0.0.1'', h_os = ''linux'',
           h_ssh = Some \<lparr>ssh_username = ''ops'', ssh_password = Some ''pw'',
                          ssh_private_key = None, ssh_port = 22\<rparr>,
           h_winrm = None\<rparr>"

definition win1 :: Host where
  "win1 = \<lparr>h_name = ''win-1'', h_ip = ''10.0.0.2'', h_os = ''windows'',
           h_ssh = None,
           h_winrm = Some \<lparr>winrm_username = ''admin'', winrm_password = ''pw'',
                            winrm_scheme = ''http'', winrm_port = 5985,
                            winrm_verify_ssl = False\<rparr>\<rparr>"

definition env_ok :: "int \<Rightarrow> int poll_env" where
  "env_ok now = \<lparr>pe_time = now, pe_tcp_ping = (\<lambda>ip port. Some 7),
                 pe_ssh = (\<lambda>n. SshOutput example_output [])\<rparr>"

definition env_down :: "int \<Rightarrow> int poll_env" where
  "env_down now = \<lparr>pe_time = now, pe_tcp_ping = (\<lambda>ip port. Some 7),
                   pe_ssh = (\<lambda>n. SshRaised (TransportError ''timed out''))\<rparr>"

text \<open>
  The tables after \<open>web-1\<close> was registered, polled at time 100 with a payload that
  reported two disks, and polled again at time 130 with the host unreachable.
\<close>

definition two_disk_store :: "int store" where
  "two_disk_store =
     \<lparr>t_hosts = [\<lparr>hr_id = 1, hr_name = ''web-1'', hr_ip = ''10.0.0.1'', hr_os = ''linux''\<rparr>],
      t_hosts_seq = 1,
      t_samples =
        [\<lparr>s_host_id = 1,
          s_cols = \<lparr>sc_ts = 100, sc_cpu = Some 12, sc_mem_total = Some 0, sc_mem_avail = Some 0,
                    sc_uptime = Some 0, sc_latency_ms = Some 7,
                    sc_net_rx_kbps = None, sc_net_tx_kbps = None\<rparr>\<rparr>,
         \<lparr>s_host_id = 1,
          s_cols = \<lparr>sc_ts = 130, sc_cpu = None, sc_mem_total = None, sc_mem_avail = None,
                    sc_uptime = None, sc_latency_ms = Some 7,
                    sc_net_rx_kbps = None, sc_net_tx_kbps = None\<rparr>\<rparr>],
      t_disks =
        [\<lparr>d_host_id = 1, d_ts = 100,
          d_cols = \<lparr>dc_device = ''/dev/sda1'', dc_used_percent = Some 40, dc_size_bytes = 1000,
                    dc_free_bytes = 600, dc_mount = ''/''\<rparr>\<rparr>,
         \<lparr>d_host_id = 1, d_ts = 100,
          d_cols = \<lparr>dc_device = ''/dev/sdb1'', dc_used_percent = Some 10, dc_size_bytes = 2000,
                    dc_free_bytes = 1800, dc_mount = ''/data''\<rparr>\<rparr>],
      t_extras = [\<lparr>e_host_id = 1, e_ts = 100, e_payload = example_extras_text\<rparr>]\<rparr>"

section \<open>What the retry policy does\<close>

lemma retry_loop_first_ok:
  "body n = Inr v \<Longrightarrow>
   retry_loop stop_n wait_s body n = \<lparr>r_outcome = Inr v, r_attempts = n, r_sleeps = []\<rparr>"
  by (simp add: retry_loop.simps)

lemma retry_loop_last_fails:
  "body n = Inl e \<Longrightarrow> stop_n \<le> n \<Longrightarrow>
   retry_loop stop_n wait_s body n =
     \<lparr>r_outcome = Inl (RetryError e), r_attempts = n, r_sleeps = []\<rparr>"
  by (simp add: retry_loop.simps)

lemma retry_loop_again:
  "body n = Inl e \<Longrightarrow> \<not> stop_n \<le> n \<Longrightarrow>
   retry_loop stop_n wait_s body n =
     (retry_loop stop_n wait_s body (Suc n))
       \<lparr>r_sleeps := wait_s # r_sleeps (retry_loop stop_n wait_s body (Suc n))\<rparr>"
  by (simp add: retry_loop.simps Let_def)

lemma retry_loop_attempts_bound:
  "n \<le> stop_n \<Longrightarrow> r_attempts (retry_loop stop_n wait_s body n) \<le> stop_n"
proof (induction stop_n wait_s body n rule: retry_loop.induct)
  case (1 stop_n wait_s body n)
  show ?case
  proof (cases "body n")
    case (Inr v)
    with 1(2) show ?thesis by (simp add: retry_loop_first_ok)
  next
    case (Inl e)
    show ?thesis
    proof (cases "stop_n \<le> n")
      case True
      with Inl 1(2) show ?thesis by (simp add: retry_loop_last_fails)
    next
      case False
      then have "Suc n \<le> stop_n" by simp
      with 1(1) [OF Inl False] Inl False show ?thesis
        by (simp add: retry_loop_again)
    qed
  qed
qed

lemma retry_twice:
  assumes "body 1 = Inl e"
  shows "retry_loop 2 1 body 1 =
     \<lparr>r_outcome = (case body 2 of Inr v \<Rightarrow> Inr v | Inl e2 \<Rightarrow> Inl (RetryError e2)),
      r_attempts = 2, r_sleeps = [1]\<rparr>"
proof -
  have b1: "body (Suc 0) = Inl e"
    using assms by simp
  have step: "retry_loop 2 (Suc 0) body (Suc 0) =
      (retry_loop 2 (Suc 0) body (Suc (Suc 0)))
        \<lparr>r_sleeps := Suc 0 # r_sleeps (retry_loop 2 (Suc 0) body (Suc (Suc 0)))\<rparr>"
    using retry_loop_again [of body "Suc 0" e 2 "Suc 0"] b1 by simp
  show ?thesis
  proof (cases "body (Suc (Suc 0))")
    case (Inr v)
    then show ?thesis
      using step retry_loop_first_ok [of body "Suc (Suc 0)" v 2 "Suc 0"]
      by (simp add: numeral_2_eq_2)
  next
    case (Inl e2)
    then show ?thesis
      using step retry_loop_last_fails [of body "Suc (Suc 0)" e2 2 "Suc 0"]
      by (simp add: numeral_2_eq_2)
  qed
qed

lemma ssh_run_twice:
  assumes "ssh_body (io 1) = Inl e"
  shows "SSHClient_run io =
     \<lparr>r_outcome = (case ssh_body (io 2) of Inr out \<Rightarrow> Inr out | Inl e2 \<Rightarrow> Inl (RetryError e2)),
      r_attempts = 2, r_sleeps = [1]\<rparr>"
  unfolding SSHClient_run_def
  by (rule retry_twice [of "\<lambda>n. ssh_body (io n)" e]) (rule assms)

lemma winrm_run_twice:
  assumes "winrm_body (io 1) = Inl e"
  shows "WinRMClient_run_ps io =
     \<lparr>r_outcome = (case winrm_body (io 2) of Inr out \<Rightarrow> Inr out | Inl e2 \<Rightarrow> Inl (RetryError e2)),
      r_attempts = 2, r_sleeps = [1]\<rparr>"
  unfolding WinRMClient_run_ps_def
  by (rule retry_twice [of "\<lambda>n. winrm_body (io n)" e]) (rule assms)

text \<open>
  Claim C3, as amended. Whenever the first attempt of \<^verbatim>\<open>SSHClient.run\<close> or of
  \<^verbatim>\<open>WinRMClient.run_ps\<close> fails, whatever the exception, the whole body (connect and
  execute) is run a second time and never a third: two attempts in total, with one
  sleep of one second between them. When the second attempt succeeds the caller gets
  its output. When it fails as well, the caller does not get the last attempt's
  exception itself: it gets tenacity's \<open>RetryError\<close>, which holds that exception
  (the decorators are not given \<^verbatim>\<open>reraise=True\<close>).
\<close>

theorem retry_policy_two_attempts_fixed_delay:
  "(ssh_body (io 1) = Inl e \<longrightarrow>
      r_attempts (SSHClient_run io) = 2 \<and> r_sleeps (SSHClient_run io) = [1] \<and>
      r_outcome (SSHClient_run io) =
        (case ssh_body (io 2) of Inr out \<Rightarrow> Inr out | Inl e2 \<Rightarrow> Inl (RetryError e2))) \<and>
   (winrm_body (wio 1) = Inl e' \<longrightarrow>
      r_attempts (WinRMClient_run_ps wio) = 2 \<and> r_sleeps (WinRMClient_run_ps wio) = [1] \<and>
      r_outcome (WinRMClient_run_ps wio) =
        (case winrm_body (wio 2) of Inr out \<Rightarrow> Inr out | Inl e2 \<Rightarrow> Inl (RetryError e2)))"
proof (intro conjI impI)
  assume a: "ssh_body (io 1) = Inl e"
  show "r_attempts (SSHClient_run io) = 2"
    by (simp only: ssh_run_twice [of io e, OF a] retry_result.simps)
  show "r_sleeps (SSHClient_run io) = [1]"
    by (simp only: ssh_run_twice [of io e, OF a] retry_result.simps)
  show "r_outcome (SSHClient_run io) =
      (case ssh_body (io 2) of Inr out \<Rightarrow> Inr out | Inl e2 \<Rightarrow> Inl (RetryError e2))"
    by (simp only: ssh_run_twice [of io e, OF a] retry_result.simps)
next
  assume b: "winrm_body (wio 1) = Inl e'"
  show "r_attempts (WinRMClient_run_ps wio) = 2"
    by (simp only: winrm_run_twice [of wio "e'", OF b] retry_result.simps)
  show "r_sleeps (WinRMClient_run_ps wio) = [1]"
    by (simp only: winrm_run_twice [of wio "e'", OF b] retry_result.simps)
  show "r_outcome (WinRMClient_run_ps wio) =
      (case winrm_body (wio 2) of Inr out \<Rightarrow> Inr out | Inl e2 \<Rightarrow> Inl (RetryError e2))"
    by (simp only: winrm_run_twice [of wio "e'", OF b] retry_result.simps)
qed

theorem retry_policy_witness:
  "ssh_body ((\<lambda>n. if n = 1 then SshRaised (TransportError ''timed out'')
                   else SshOutput [] ''permission denied'') 1)
     = Inl (TransportError ''timed out'') \<and>
   r_attempts (SSHClient_run (\<lambda>n. if n = 1 then SshRaised (TransportError ''timed out'')
                   else SshOutput [] ''permission denied'')) = 2 \<and>
   r_sleeps (SSHClient_run (\<lambda>n. if n = 1 then SshRaised (TransportError ''timed out'')
                   else SshOutput [] ''permission denied'')) = [1] \<and>
   r_outcome (SSHClient_run (\<lambda>n. if n = 1 then SshRaised (TransportError ''timed out'')
                   else SshOutput [] ''permission denied''))
     = Inl (RetryError (RuntimeError ''permission denied'')) \<and>
   winrm_body ((\<lambda>n. WinrmResponse 1 [] ''access denied'') 1)
     = Inl (RuntimeError ''access denied'') \<and>
   r_attempts (WinRMClient_run_ps (\<lambda>n. WinrmResponse 1 [] ''access denied'')) = 2 \<and>
   r_sleeps (WinRMClient_run_ps (\<lambda>n. WinrmResponse 1 [] ''access denied'')) = [1] \<and>
   r_outcome (WinRMClient_run_ps (\<lambda>n. WinrmResponse 1 [] ''access denied''))
     = Inl (RetryError (RuntimeError ''access denied''))"
  using retry_policy_two_attempts_fixed_delay
    [of "\<lambda>n. if n = 1 then SshRaised (TransportError ''timed out'')
              else SshOutput [] ''permission denied''"
        "TransportError ''timed out''"
        "\<lambda>n. WinrmResponse 1 [] ''access denied''"
        "RuntimeError ''access denied''"]
  by simp

text \<open>
  The claim as first stated says that the last error itself reaches the caller. With
  both attempts timing out, the caller of \<^verbatim>\<open>SSHClient.run\<close> gets a \<open>RetryError\<close>
  and not the timeout; with both answers of WinRM carrying status 1, the caller of
  \<^verbatim>\<open>WinRMClient.run_ps\<close> gets a \<open>RetryError\<close> and not the RuntimeError.
\<close>

theorem retry_exhausted_raises_wrapper_not_last_error:
  "r_outcome (SSHClient_run (\<lambda>n. SshRaised (TransportError ''timed out'')))
     = Inl (RetryError (TransportError ''timed out'')) \<and>
   r_outcome (SSHClient_run (\<lambda>n. SshRaised (TransportError ''timed out'')))
     \<noteq> Inl (TransportError ''timed out'') \<and>
   r_outcome (WinRMClient_run_ps (\<lambda>n. WinrmResponse 1 [] ''access denied''))
     = Inl (RetryError (RuntimeError ''access denied'')) \<and>
   r_outcome (WinRMClient_run_ps (\<lambda>n. WinrmResponse 1 [] ''access denied''))
     \<noteq> Inl (RuntimeError ''access denied'')"
  using ssh_run_twice [of "\<lambda>n. SshRaised (TransportError ''timed out'')" "TransportError ''timed out''"]
        winrm_run_twice [of "\<lambda>n. WinrmResponse 1 [] ''access denied''" "RuntimeError ''access denied''"]
  by simp

lemma ssh_run_first_ok:
  assumes "ssh_body (io 1) = Inr out"
  shows "SSHClient_run io = \<lparr>r_outcome = Inr out, r_attempts = 1, r_sleeps = []\<rparr>"
  unfolding SSHClient_run_def
  by (rule retry_loop_first_ok) (rule assms)

section \<open>Registration\<close>

lemma insert_host_present:
  "h_name h \<in> set (map hr_name (t_hosts st)) \<Longrightarrow>
   t_hosts (insert_host_or_ignore h st) = t_hosts st"
  by (simp add: insert_host_or_ignore_def Let_def)

lemma insert_host_names:
  "set (map hr_name (t_hosts (insert_host_or_ignore h st))) =
     insert (h_name h) (set (map hr_name (t_hosts st)))"
  by (auto simp: insert_host_or_ignore_def Let_def)

lemma insert_host_distinct:
  "distinct (map hr_name (t_hosts st)) \<Longrightarrow>
   distinct (map hr_name (t_hosts (insert_host_or_ignore h st)))"
  by (auto simp: insert_host_or_ignore_def Let_def)

lemma insert_host_other_tables:
  "t_samples (insert_host_or_ignore h st) = t_samples st \<and>
   t_disks (insert_host_or_ignore h st) = t_disks st \<and>
   t_extras (insert_host_or_ignore h st) = t_extras st"
  by (simp add: insert_host_or_ignore_def Let_def)

lemma register_hosts_Cons:
  "register_hosts (h # hs) st = register_hosts hs (insert_host_or_ignore h st)"
  by (simp add: register_hosts_def)

lemma register_hosts_distinct:
  "distinct (map hr_name (t_hosts st)) \<Longrightarrow>
   distinct (map hr_name (t_hosts (register_hosts hs st)))"
proof (induction hs arbitrary: st)
  case Nil
  then show ?case by (simp add: register_hosts_def)
next
  case (Cons h hs)
  then show ?case by (simp add: register_hosts_Cons insert_host_distinct)
qed

lemma register_hosts_names:
  "set (map hr_name (t_hosts (register_hosts hs st))) =
     h_name ` set hs \<union> set (map hr_name (t_hosts st))"
proof (induction hs arbitrary: st)
  case Nil
  then show ?case by (simp add: register_hosts_def)
next
  case (Cons h hs)
  show ?case
    unfolding register_hosts_Cons Cons.IH insert_host_names by auto
qed

lemma register_hosts_present:
  "h_name ` set hs \<subseteq> set (map hr_name (t_hosts st)) \<Longrightarrow>
   t_hosts (register_hosts hs st) = t_hosts st"
proof (induction hs arbitrary: st)
  case Nil
  then show ?case by (simp add: register_hosts_def)
next
  case (Cons h hs)
  from Cons.prems have here: "h_name h \<in> set (map hr_name (t_hosts st))"
    by simp
  from Cons.prems have rest:
    "h_name ` set hs \<subseteq> set (map hr_name (t_hosts (insert_host_or_ignore h st)))"
    by (simp add: insert_host_present [OF here])
  show ?case
    unfolding register_hosts_Cons Cons.IH [OF rest] by (rule insert_host_present [OF here])
qed

lemma register_hosts_idem:
  "t_hosts (register_hosts hs (register_hosts hs st)) = t_hosts (register_hosts hs st)"
proof (rule register_hosts_present)
  show "h_name ` set hs \<subseteq> set (map hr_name (t_hosts (register_hosts hs st)))"
    unfolding register_hosts_names by blast
qed

lemma select_host_id_insert:
  assumes a: "select_host_id (t_hosts st) n = Inr i"
  shows "select_host_id (t_hosts (insert_host_or_ignore h st)) n = Inr i"
proof (cases "h_name h \<in> set (map hr_name (t_hosts st))")
  case True
  with a show ?thesis by (simp add: insert_host_present)
next
  case False
  have "n \<noteq> h_name h"
  proof
    assume "n = h_name h"
    with False have "filter (\<lambda>r. hr_name r = n) (t_hosts st) = []"
      by (auto simp: filter_empty_conv image_def)
    with a show False by (simp add: select_host_id_def)
  qed
  with a False show ?thesis
    by (simp add: insert_host_or_ignore_def select_host_id_def Let_def)
qed

lemma select_host_id_register:
  "select_host_id (t_hosts st) n = Inr i \<Longrightarrow>
   select_host_id (t_hosts (register_hosts hs st)) n = Inr i"
proof (induction hs arbitrary: st)
  case Nil
  then show ?case by (simp add: register_hosts_def)
next
  case (Cons h hs)
  then show ?case by (simp add: register_hosts_Cons select_host_id_insert)
qed

text \<open>
  Claim C9. Registering a host whose name is already in \<^verbatim>\<open>hosts\<close> leaves the table
  as it was (insert if absent; only the id sequence moves on); registering any list of
  hosts keeps the names of the table distinct and keeps the id each registered name
  already had; starting from the empty table the names are distinct whatever the list
  (repeated names included); and registering the same list again leaves the table as
  it was.
\<close>

theorem registration_idempotent_names_unique:
  "(h_name h \<in> set (map hr_name (t_hosts st)) \<longrightarrow>
      t_hosts (insert_host_or_ignore h st) = t_hosts st) \<and>
   (distinct (map hr_name (t_hosts st)) \<longrightarrow>
      distinct (map hr_name (t_hosts (register_hosts hs st)))) \<and>
   (select_host_id (t_hosts st) n = Inr i \<longrightarrow>
      select_host_id (t_hosts (register_hosts hs st)) n = Inr i) \<and>
   distinct (map hr_name (t_hosts (register_hosts hs (empty_store :: 'f store)))) \<and>
   t_hosts (register_hosts hs (register_hosts hs st)) = t_hosts (register_hosts hs st)"
  using register_hosts_distinct [of empty_store hs]
  by (simp add: insert_host_present register_hosts_distinct select_host_id_register
      register_hosts_idem empty_store_def)

lemma registered_example:
  "register_hosts [web1, win1] (empty_store :: int store) =
     \<lparr>t_hosts = [\<lparr>hr_id = 1, hr_name = ''web-1'', hr_ip = ''10.0.0.1'', hr_os = ''linux''\<rparr>,
                 \<lparr>hr_id = 2, hr_name = ''win-1'', hr_ip = ''10.0.0.2'', hr_os = ''windows''\<rparr>],
      t_hosts_seq = 2, t_samples = [], t_disks = [], t_extras = []\<rparr>"
  by (simp add: register_hosts_def insert_host_or_ignore_def empty_store_def web1_def win1_def
      next_host_id_def Let_def)

theorem registration_witness:
  "h_name web1 \<in> set (map hr_name (t_hosts (register_hosts [web1, win1] (empty_store :: int store)))) \<and>
   t_hosts (insert_host_or_ignore web1 (register_hosts [web1, win1] (empty_store :: int store)))
     = t_hosts (register_hosts [web1, win1] (empty_store :: int store)) \<and>
   distinct (map hr_name (t_hosts (register_hosts [web1, win1] (empty_store :: int store)))) \<and>
   distinct (map hr_name
      (t_hosts (register_hosts [web1, win1, web1]
         (register_hosts [web1, win1] (empty_store :: int store))))) \<and>
   select_host_id (t_hosts (register_hosts [web1, win1] (empty_store :: int store))) ''win-1''
     = Inr 2 \<and>
   select_host_id
      (t_hosts (register_hosts [web1, win1, web1]
         (register_hosts [web1, win1] (empty_store :: int store))))
      ''win-1'' = Inr 2"
proof -
  have name: "h_name web1 \<in>
      set (map hr_name (t_hosts (register_hosts [web1, win1] (empty_store :: int store))))"
    unfolding registered_example by (simp add: web1_def)
  have dist: "distinct (map hr_name
      (t_hosts (register_hosts [web1, win1] (empty_store :: int store))))"
    by (simp add: registered_example)
  have sel: "select_host_id
      (t_hosts (register_hosts [web1, win1] (empty_store :: int store))) ''win-1'' = Inr 2"
    by (simp add: registered_example select_host_id_def)
  from registration_idempotent_names_unique
    [of web1 "register_hosts [web1, win1] (empty_store :: int store)" "[web1, win1, web1]"
        "''win-1''" 2]
    name dist sel
  show ?thesis by blast
qed

section \<open>One poll\<close>

lemma insert_disk_rows_keeps:
  "insert_disk_rows rt hid ts ds st = Inr st' \<Longrightarrow>
   t_samples st' = t_samples st \<and> t_hosts st' = t_hosts st \<and> t_extras st' = t_extras st"
proof (induction ds arbitrary: st)
  case Nil
  then show ?case by simp
next
  case (Cons d ds)
  from Cons.prems obtain row where
    "insert_disk_rows rt hid ts ds (st\<lparr>t_disks := t_disks st @ [row]\<rparr>) = Inr st'"
    by (auto simp: and_then_def split: sum.splits)
  from Cons.IH [OF this] show ?case by simp
qed

lemma insert_disks_keeps:
  "insert_disks rt hid ts ds st = Inr st' \<Longrightarrow>
   t_samples st' = t_samples st \<and> t_hosts st' = t_hosts st \<and> t_extras st' = t_extras st"
  by (auto simp: insert_disks_def and_then_def split: if_splits sum.splits
      dest: insert_disk_rows_keeps)

lemma insert_extras_keeps:
  "t_samples (insert_extras hid ts p st) = t_samples st \<and>
   t_hosts (insert_extras hid ts p st) = t_hosts st \<and>
   t_disks (insert_extras hid ts p st) = t_disks st"
  by (simp add: insert_extras_def split: option.splits)

lemma insert_sample_appends:
  "insert_sample rt hid ts latency v st = Inr st1 \<Longrightarrow>
   \<exists>r. t_samples st1 = t_samples st @ [r] \<and> s_host_id r = hid \<and> sc_ts (s_cols r) = ts \<and>
       t_extras st1 = t_extras st \<and> t_hosts st1 = t_hosts st \<and> t_disks st1 = t_disks st"
  by (auto simp: insert_sample_def and_then_def split: sum.splits)

lemma commit_steps:
  assumes "select_host_id (t_hosts st) (h_name host) = Inr hid"
      and "commit rt host ts latency v st = (None, st')"
  shows "\<exists>st1 st2. insert_sample rt hid ts latency v st = Inr st1 \<and>
           insert_disks rt hid ts (v_disks v) st1 = Inr st2 \<and>
           st' = insert_extras hid ts (v_extras_payload v) st2"
  using assms
  by (auto simp: commit_def commit_tx_def and_then_def split: sum.splits)

lemma commit_one_sample:
  assumes "select_host_id (t_hosts st) (h_name host) = Inr hid"
      and "commit rt host ts latency v st = (None, st')"
  shows "\<exists>r. t_samples st' = t_samples st @ [r] \<and> s_host_id r = hid \<and> sc_ts (s_cols r) = ts"
proof -
  from commit_steps [OF assms] obtain st1 st2 where
      s1: "insert_sample rt hid ts latency v st = Inr st1"
    and s2: "insert_disks rt hid ts (v_disks v) st1 = Inr st2"
    and s3: "st' = insert_extras hid ts (v_extras_payload v) st2"
    by blast
  from insert_sample_appends [OF s1] obtain r where
    "t_samples st1 = t_samples st @ [r]" "s_host_id r = hid" "sc_ts (s_cols r) = ts"
    by blast
  with insert_disks_keeps [OF s2] s3 show ?thesis
    by (simp add: insert_extras_keeps)
qed

lemma commit_init_vars:
  assumes "select_host_id (t_hosts st) (h_name host) = Inr hid"
  shows "commit rt host ts latency init_vars st =
     (None, st\<lparr>t_samples := t_samples st @
       [\<lparr>s_host_id = hid,
         s_cols = \<lparr>sc_ts = ts, sc_cpu = None, sc_mem_total = None, sc_mem_avail = None,
                   sc_uptime = None, sc_latency_ms = sqlite_real_opt rt latency,
                   sc_net_rx_kbps = None, sc_net_tx_kbps = None\<rparr>\<rparr>]\<rparr>)"
  using assms
  by (simp add: commit_def commit_tx_def and_then_def insert_sample_def insert_disks_def
      insert_extras_def init_vars_def)

lemma linux_collect_ssh_failed:
  "r_outcome (SSHClient_run io) = Inl e \<Longrightarrow> linux_collect rt io v = (Some e, v)"
  by (simp add: linux_collect_def on_ok_def)

lemma linux_collect_ssh_ok:
  "r_outcome (SSHClient_run io) = Inr raw \<Longrightarrow> linux_collect rt io v = parse_output rt raw v"
  by (simp add: linux_collect_def on_ok_def)

lemma poll_once_linux:
  "h_os host = ''linux'' \<Longrightarrow> h_ssh host = Some cfg \<Longrightarrow>
   poll_once rt env host st =
     commit rt host (pe_time env) (pe_tcp_ping env (h_ip host) 22)
       (snd (linux_collect rt (pe_ssh env) init_vars)) st"
  by (simp add: poll_once_def Let_def)

lemma poll_once_windows:
  "h_os host = ''windows'' \<Longrightarrow> h_winrm host = Some cfg \<Longrightarrow>
   poll_once rt env host st = (None, st)"
  by (simp add: poll_once_def Let_def)

lemma example_hosts_registered:
  "select_host_id (t_hosts (register_hosts [web1, win1] (empty_store :: int store))) (h_name web1)
     = Inr 1 \<and>
   select_host_id (t_hosts (register_hosts [web1, win1] (empty_store :: int store))) (h_name win1)
     = Inr 2"
  unfolding registered_example by (simp add: select_host_id_def web1_def win1_def)

lemma example_poll_down:
  "poll_once example_rt (env_down now) web1 (register_hosts [web1, win1] empty_store) =
     (None, (register_hosts [web1, win1] empty_store)
        \<lparr>t_samples :=
           [\<lparr>s_host_id = 1,
             s_cols = \<lparr>sc_ts = now, sc_cpu = None, sc_mem_total = None, sc_mem_avail = None,
                       sc_uptime = None, sc_latency_ms = Some 7,
                       sc_net_rx_kbps = None, sc_net_tx_kbps = None\<rparr>\<rparr>]\<rparr>)"
proof -
  have run: "r_outcome (SSHClient_run (pe_ssh (env_down now)))
      = Inl (RetryError (TransportError ''timed out''))"
    using ssh_run_twice [of "pe_ssh (env_down now)" "TransportError ''timed out''"]
    by (simp add: env_down_def)
  have os: "h_os web1 = ''linux''" "h_ssh web1 = Some \<lparr>ssh_username = ''ops'',
      ssh_password = Some ''pw'', ssh_private_key = None, ssh_port = 22\<rparr>"
    by (simp_all add: web1_def)
  have samples: "t_samples (register_hosts [web1, win1] (empty_store :: int store)) = []"
    by (simp add: registered_example)
  show ?thesis
    unfolding poll_once_linux [OF os] linux_collect_ssh_failed [OF run] snd_conv
      commit_init_vars [OF conjunct1 [OF example_hosts_registered]] samples
    by (simp add: env_down_def example_rt_def sqlite_real_def)
qed

text \<open>
  Claim C1, as amended. For every registered host that is not a Windows host with a
  WinRM profile, a poll that returns (its commit transaction does not raise) has
  appended exactly one row to \<^verbatim>\<open>samples\<close>, for that host and with the poll's
  timestamp, whether the collection succeeded or failed. For a Windows host with a
  WinRM profile the poll returns before the commit and leaves every table as it was:
  no row is written for it.
\<close>

theorem poll_once_one_sample_unless_windows:
  "(select_host_id (t_hosts st) (h_name host) = Inr hid \<and>
    \<not> (h_os host = ''windows'' \<and> h_winrm host \<noteq> None) \<and>
    poll_once rt env host st = (None, st')
      \<longrightarrow> (\<exists>r. t_samples st' = t_samples st @ [r] \<and> s_host_id r = hid \<and>
               sc_ts (s_cols r) = pe_time env)) \<and>
   (h_os host = ''windows'' \<and> h_winrm host \<noteq> None
      \<longrightarrow> poll_once rt env host st = (None, st))"
proof (intro conjI impI)
  assume a: "select_host_id (t_hosts st) (h_name host) = Inr hid \<and>
    \<not> (h_os host = ''windows'' \<and> h_winrm host \<noteq> None) \<and>
    poll_once rt env host st = (None, st')"
  then obtain v latency where "commit rt host (pe_time env) latency v st = (None, st')"
    by (auto simp: poll_once_def Let_def split: if_splits)
  with a show "\<exists>r. t_samples st' = t_samples st @ [r] \<and> s_host_id r = hid \<and>
               sc_ts (s_cols r) = pe_time env"
    using commit_one_sample by blast
next
  assume "h_os host = ''windows'' \<and> h_winrm host \<noteq> None"
  then show "poll_once rt env host st = (None, st)"
    by (auto simp: poll_once_def Let_def)
qed

theorem poll_once_one_sample_witness:
  "select_host_id (t_hosts (register_hosts [web1, win1] (empty_store :: int store))) (h_name web1)
     = Inr 1 \<and>
   \<not> (h_os web1 = ''windows'' \<and> h_winrm web1 \<noteq> None) \<and>
   fst (poll_once example_rt (env_down 130) web1 (register_hosts [web1, win1] empty_store)) = None \<and>
   (\<exists>r. t_samples (snd (poll_once example_rt (env_down 130) web1
                            (register_hosts [web1, win1] empty_store)))
          = t_samples (register_hosts [web1, win1] (empty_store :: int store)) @ [r] \<and>
        s_host_id r = 1 \<and> sc_ts (s_cols r) = pe_time (env_down 130 :: int poll_env)) \<and>
   h_os win1 = ''windows'' \<and> h_winrm win1 \<noteq> None \<and>
   poll_once example_rt (env_ok 130) win1 (register_hosts [web1, win1] empty_store)
     = (None, register_hosts [web1, win1] empty_store)"
proof -
  let ?st = "register_hosts [web1, win1] (empty_store :: int store)"
  let ?st' = "snd (poll_once example_rt (env_down 130) web1 ?st)"
  have reg: "select_host_id (t_hosts ?st) (h_name web1) = Inr 1"
    by (rule conjunct1 [OF example_hosts_registered])
  have lin: "\<not> (h_os web1 = ''windows'' \<and> h_winrm web1 \<noteq> None)"
    by (simp add: web1_def)
  have ret: "fst (poll_once example_rt (env_down 130) web1 ?st) = None"
    by (simp add: example_poll_down)
  then have run: "poll_once example_rt (env_down 130) web1 ?st = (None, ?st')"
    by (simp add: prod_eq_iff)
  have win: "h_os win1 = ''windows'' \<and> h_winrm win1 \<noteq> None"
    by (simp add: win1_def)
  from poll_once_one_sample_unless_windows
    [of ?st web1 1 example_rt "env_down 130" ?st'] reg lin run
  have one: "\<exists>r. t_samples ?st' = t_samples ?st @ [r] \<and> s_host_id r = 1 \<and>
      sc_ts (s_cols r) = pe_time (env_down 130 :: int poll_env)"
    by blast
  from poll_once_one_sample_unless_windows
    [of ?st win1 2 example_rt "env_ok 130" ?st] win
  have skip: "poll_once example_rt (env_ok 130) win1 ?st = (None, ?st)"
    by blast
  from reg lin ret one win skip show ?thesis by blast
qed

text \<open>
  The claim as first stated includes Windows hosts. With \<open>web-1\<close> and \<open>win-1\<close>
  registered, a poll of \<open>win-1\<close> (Windows, with a WinRM profile) returns normally and
  the \<^verbatim>\<open>samples\<close> table is still empty: no row was committed for it.
\<close>

theorem windows_poll_commits_no_sample:
  "select_host_id (t_hosts (register_hosts [web1, win1] (empty_store :: int store))) (h_name win1)
     = Inr 2 \<and>
   fst (poll_once example_rt (env_ok 130) win1 (register_hosts [web1, win1] empty_store)) = None \<and>
   t_samples (snd (poll_once example_rt (env_ok 130) win1 (register_hosts [web1, win1] empty_store)))
     = []"
proof -
  have "poll_once example_rt (env_ok 130) win1 (register_hosts [web1, win1] empty_store)
      = (None, register_hosts [web1, win1] empty_store)"
    by (rule poll_once_windows [of win1 "\<lparr>winrm_username = ''admin'', winrm_password = ''pw'',
        winrm_scheme = ''http'', winrm_port = 5985, winrm_verify_ssl = False\<rparr>"])
      (simp_all add: win1_def)
  then show ?thesis
    using example_hosts_registered by (simp add: registered_example)
qed

text \<open>
  Claim C2. When both attempts of the SSH connector fail for a registered Linux host,
  \<^verbatim>\<open>poll_once\<close> returns without raising and has appended one row to \<^verbatim>\<open>samples\<close> for
  that host: \<open>ts\<close> is the poll's timestamp, cpu, mem_total, mem_avail, uptime,
  net_rx_kbps and net_tx_kbps are NULL, and latency_ms is the result of the TCP probe
  against port 22 (a number when the probe succeeded, NULL when it did not). The probe's
  number is a difference of two clock readings, so it is not a NaN.
\<close>

theorem failed_collection_commits_null_sample:
  assumes "select_host_id (t_hosts st) (h_name host) = Inr hid"
      and "h_os host = ''linux''" and "h_ssh host = Some cfg"
      and "ssh_body (pe_ssh env 1) = Inl e1" and "ssh_body (pe_ssh env 2) = Inl e2"
      and "\<forall>x. pe_tcp_ping env (h_ip host) 22 = Some x \<longrightarrow> \<not> rt_isnan rt x"
  shows "poll_once rt env host st =
     (None, st\<lparr>t_samples := t_samples st @
       [\<lparr>s_host_id = hid,
         s_cols = \<lparr>sc_ts = pe_time env, sc_cpu = None, sc_mem_total = None,
                   sc_mem_avail = None, sc_uptime = None,
                   sc_latency_ms = pe_tcp_ping env (h_ip host) 22,
                   sc_net_rx_kbps = None, sc_net_tx_kbps = None\<rparr>\<rparr>]\<rparr>)"
proof -
  have run: "r_outcome (SSHClient_run (pe_ssh env)) = Inl (RetryError e2)"
    by (simp only: ssh_run_twice [of "pe_ssh env" e1, OF assms(4)] retry_result.simps assms(5)
        sum.case)
  have lat: "sqlite_real_opt rt (pe_tcp_ping env (h_ip host) 22) = pe_tcp_ping env (h_ip host) 22"
    using assms(6) by (cases "pe_tcp_ping env (h_ip host) 22") (simp_all add: sqlite_real_def)
  show ?thesis
    unfolding poll_once_linux [OF assms(2,3)] linux_collect_ssh_failed [OF run] snd_conv
      commit_init_vars [OF assms(1)] lat
    by (rule refl)
qed

theorem failed_collection_witness:
  "select_host_id (t_hosts (register_hosts [web1, win1] (empty_store :: int store))) (h_name web1)
     = Inr 1 \<and>
   h_os web1 = ''linux'' \<and>
   h_ssh web1 = Some \<lparr>ssh_username = ''ops'', ssh_password = Some ''pw'',
                       ssh_private_key = None, ssh_port = 22\<rparr> \<and>
   ssh_body (pe_ssh (env_down 130 :: int poll_env) 1) = Inl (TransportError ''timed out'') \<and>
   ssh_body (pe_ssh (env_down 130 :: int poll_env) 2) = Inl (TransportError ''timed out'') \<and>
   pe_tcp_ping (env_down 130) (h_ip web1) 22 = Some 7 \<and> \<not> rt_isnan example_rt 7 \<and>
   poll_once example_rt (env_down 130) web1 (register_hosts [web1, win1] empty_store) =
     (None, (register_hosts [web1, win1] empty_store)
        \<lparr>t_samples := t_samples (register_hosts [web1, win1] empty_store) @
           [\<lparr>s_host_id = 1,
             s_cols = \<lparr>sc_ts = pe_time (env_down 130 :: int poll_env), sc_cpu = None,
                       sc_mem_total = None, sc_mem_avail = None, sc_uptime = None,
                       sc_latency_ms = pe_tcp_ping (env_down 130) (h_ip web1) 22,
                       sc_net_rx_kbps = None, sc_net_tx_kbps = None\<rparr>\<rparr>]\<rparr>)"
proof -
  have reg: "select_host_id (t_hosts (register_hosts [web1, win1] (empty_store :: int store)))
      (h_name web1) = Inr 1"
    by (rule conjunct1 [OF example_hosts_registered])
  have os: "h_os web1 = ''linux''"
    by (simp add: web1_def)
  have cfg: "h_ssh web1 = Some \<lparr>ssh_username = ''ops'', ssh_password = Some ''pw'',
                       ssh_private_key = None, ssh_port = 22\<rparr>"
    by (simp add: web1_def)
  have a1: "ssh_body (pe_ssh (env_down 130 :: int poll_env) 1) = Inl (TransportError ''timed out'')"
    by (simp add: env_down_def)
  have a2: "ssh_body (pe_ssh (env_down 130 :: int poll_env) 2) = Inl (TransportError ''timed out'')"
    by (simp add: env_down_def)
  have nan: "\<forall>x. pe_tcp_ping (env_down 130) (h_ip web1) 22 = Some x \<longrightarrow> \<not> rt_isnan example_rt x"
    by (simp add: example_rt_def)
  have probe: "pe_tcp_ping (env_down 130) (h_ip web1) 22 = Some 7 \<and> \<not> rt_isnan example_rt 7"
    by (simp add: env_down_def example_rt_def)
  note failed_collection_commits_null_sample [OF reg os cfg a1 a2 nan]
  with reg os cfg a1 a2 probe show ?thesis by blast
qed

section \<open>Parsing the payload\<close>


lemma parse_payload_ok:
  assumes "py_float rt (dict_get kvs ''cpu_percent'' (JInt 0)) = Inr cpu"
      and "py_int rt (dict_get kvs ''mem_total_bytes'' (JInt 0)) = Inr mt"
      and "py_int rt (dict_get kvs ''mem_available_bytes'' (JInt 0)) = Inr ma"
      and "py_int rt (dict_get kvs ''uptime_seconds'' (JInt 0)) = Inr up"
      and "dict_get kvs ''extras'' (JObj []) = JObj ekvs"
      and "net_total rt (dict_get ekvs ''net'' (JObj [])) ''total_rx_kbps'' = Inr rx"
      and "net_total rt (dict_get ekvs ''net'' (JObj [])) ''total_tx_kbps'' = Inr tx"
  shows "parse_payload rt (JObj kvs) v =
     (None, v\<lparr>v_cpu := Some cpu, v_mem_total := Some mt, v_mem_avail := Some ma,
              v_uptime := Some up, v_disks := dict_get kvs ''disks'' (JArr []),
              v_net_rx := rx, v_net_tx := tx,
              v_extras_payload := Some (rt_dumps rt (JObj ekvs))\<rparr>)"
  using assms
  by (simp add: parse_payload_def on_ok_def and_then_def Let_def)


lemma example_extras_lookup:
  "dict_get [(''cpu_percent'', JInt 12), (''extras'', example_extras)] ''extras'' (JObj [])
     = JObj [(''load'', JInt 3)]"
  by (simp add: dict_get_def example_extras_def)


lemma example_parse_facts:
  "rt_loads example_rt example_output
     = Inr (JObj [(''cpu_percent'', JInt 12), (''extras'', example_extras)]) \<and>
   py_float example_rt
     (dict_get [(''cpu_percent'', JInt 12), (''extras'', example_extras)] ''cpu_percent'' (JInt 0))
     = Inr 12 \<and>
   py_int example_rt
     (dict_get [(''cpu_percent'', JInt 12), (''extras'', example_extras)] ''mem_total_bytes'' (JInt 0))
     = Inr 0 \<and>
   py_int example_rt
     (dict_get [(''cpu_percent'', JInt 12), (''extras'', example_extras)] ''mem_available_bytes'' (JInt 0))
     = Inr 0 \<and>
   py_int example_rt
     (dict_get [(''cpu_percent'', JInt 12), (''extras'', example_extras)] ''uptime_seconds'' (JInt 0))
     = Inr 0 \<and>
   dict_get [(''cpu_percent'', JInt 12), (''extras'', example_extras)] ''extras'' (JObj [])
     = JObj [(''load'', JInt 3)] \<and>
   net_total example_rt (dict_get [(''load'', JInt 3)] ''net'' (JObj [])) ''total_rx_kbps''
     = Inr None \<and>
   net_total example_rt (dict_get [(''load'', JInt 3)] ''net'' (JObj [])) ''total_tx_kbps''
     = Inr None"
  by (simp add: example_rt_def dict_get_def net_total_def example_extras_def)



section \<open>What the queries return\<close>

lemma sqlite_int_in_range:
  "- (2 ^ 63) \<le> i \<Longrightarrow> i < 2 ^ 63 \<Longrightarrow> sqlite_int i = Inr i"
  by (simp add: sqlite_int_def)

lemma api_series_in_range:
  assumes "- (2 ^ 63) \<le> host_id" and "host_id < 2 ^ 63"
      and "- (2 ^ 63) \<le> now - minutes * 60" and "now - minutes * 60 < 2 ^ 63"
  shows "api_series st now host_id minutes =
     Inr \<lparr>sr_samples =
            sort_key sc_ts
              (map s_cols (filter (\<lambda>r. s_host_id r = host_id \<and> now - minutes * 60 \<le> sc_ts (s_cols r))
                 (t_samples st))),
          sr_disks =
            sort_key fst
              (map (\<lambda>d. (d_ts d, d_cols d))
                 (filter (\<lambda>d. d_host_id d = host_id \<and> now - minutes * 60 \<le> d_ts d) (t_disks st)))\<rparr>"
  using assms
  by (simp add: api_series_def Let_def and_then_def sqlite_int_in_range)

text \<open>
  Claim C5, as amended. For every host id and lookback window whose two statement
  parameters fit an SQLite integer, the series query returns, for the cutoff
  \<open>now - minutes * 60\<close>, exactly the sample rows and exactly the disk rows of that
  host whose \<open>ts\<close> is at least the cutoff (as multisets: every such row once, and no
  other row), each list in ascending order of \<open>ts\<close>. The order is not strict: rows
  with the same \<open>ts\<close>, such as the disks of one cycle, follow one another.
\<close>

theorem api_series_rows_from_cutoff_ascending:
  assumes "- (2 ^ 63) \<le> host_id" and "host_id < 2 ^ 63"
      and "- (2 ^ 63) \<le> now - minutes * 60" and "now - minutes * 60 < 2 ^ 63"
  shows "\<exists>res. api_series st now host_id minutes = Inr res \<and>
     mset (sr_samples res) =
       mset (map s_cols (filter (\<lambda>r. s_host_id r = host_id \<and> now - minutes * 60 \<le> sc_ts (s_cols r))
               (t_samples st))) \<and>
     sorted (map sc_ts (sr_samples res)) \<and>
     (\<forall>c \<in> set (sr_samples res). now - minutes * 60 \<le> sc_ts c) \<and>
     mset (sr_disks res) =
       mset (map (\<lambda>d. (d_ts d, d_cols d))
               (filter (\<lambda>d. d_host_id d = host_id \<and> now - minutes * 60 \<le> d_ts d) (t_disks st))) \<and>
     sorted (map fst (sr_disks res)) \<and>
     (\<forall>p \<in> set (sr_disks res). now - minutes * 60 \<le> fst p)"
  unfolding api_series_in_range [OF assms]
  by (intro exI conjI refl) (auto simp: sorted_sort_key)

theorem api_series_witness:
  "- (2 ^ 63) \<le> (1 :: int) \<and> (1 :: int) < 2 ^ 63 \<and>
   - (2 ^ 63) \<le> (190 :: int) - 1 * 60 \<and> (190 :: int) - 1 * 60 < 2 ^ 63 \<and>
   (\<exists>res. api_series two_disk_store 190 1 1 = Inr res \<and>
     mset (sr_samples res) =
       mset (map s_cols (filter (\<lambda>r. s_host_id r = 1 \<and> 190 - 1 * 60 \<le> sc_ts (s_cols r))
               (t_samples two_disk_store))) \<and>
     sorted (map sc_ts (sr_samples res)) \<and>
     (\<forall>c \<in> set (sr_samples res). 190 - 1 * 60 \<le> sc_ts c) \<and>
     mset (sr_disks res) =
       mset (map (\<lambda>d. (d_ts d, d_cols d))
               (filter (\<lambda>d. d_host_id d = 1 \<and> 190 - 1 * 60 \<le> d_ts d) (t_disks two_disk_store))) \<and>
     sorted (map fst (sr_disks res)) \<and>
     (\<forall>p \<in> set (sr_disks res). 190 - 1 * 60 \<le> fst p))"
proof -
  have r1: "- (2 ^ 63) \<le> (1 :: int)" and r2: "(1 :: int) < 2 ^ 63"
    and r3: "- (2 ^ 63) \<le> (190 :: int) - 1 * 60" and r4: "(190 :: int) - 1 * 60 < 2 ^ 63"
    by simp_all
  from api_series_rows_from_cutoff_ascending [OF r1 r2 r3 r4, of two_disk_store] r1 r2 r3 r4
  show ?thesis by blast
qed

text \<open>
  The claim as first stated says the rows are strictly ordered by \<open>ts\<close>. The two disk
  rows of the cycle at time 100 both come back, one after the other, with the same
  \<open>ts\<close>.
\<close>

theorem api_series_equal_ts_not_strict:
  "api_series two_disk_store 190 1 2 =
     Inr \<lparr>sr_samples =
            [\<lparr>sc_ts = 100, sc_cpu = Some 12, sc_mem_total = Some 0, sc_mem_avail = Some 0,
              sc_uptime = Some 0, sc_latency_ms = Some 7,
              sc_net_rx_kbps = None, sc_net_tx_kbps = None\<rparr>,
             \<lparr>sc_ts = 130, sc_cpu = None, sc_mem_total = None, sc_mem_avail = None,
              sc_uptime = None, sc_latency_ms = Some 7,
              sc_net_rx_kbps = None, sc_net_tx_kbps = None\<rparr>],
          sr_disks =
            [(100, \<lparr>dc_device = ''/dev/sda1'', dc_used_percent = Some 40, dc_size_bytes = 1000,
                    dc_free_bytes = 600, dc_mount = ''/''\<rparr>),
             (100, \<lparr>dc_device = ''/dev/sdb1'', dc_used_percent = Some 10, dc_size_bytes = 2000,
                    dc_free_bytes = 1800, dc_mount = ''/data''\<rparr>)]\<rparr> \<and>
   \<not> sorted_wrt (<) (map fst
        [(100 :: int, \<lparr>dc_device = ''/dev/sda1'', dc_used_percent = Some (40 :: int),
                 dc_size_bytes = 1000, dc_free_bytes = 600, dc_mount = ''/''\<rparr>),
         (100, \<lparr>dc_device = ''/dev/sdb1'', dc_used_percent = Some 10, dc_size_bytes = 2000,
                 dc_free_bytes = 1800, dc_mount = ''/data''\<rparr>)])"
  by (simp add: api_series_def Let_def and_then_def sqlite_int_def two_disk_store_def)

lemma and_then_Inr:
  "and_then (Inr x) k = k x"
  by (simp add: and_then_def)

lemma and_then_Inl:
  "and_then (Inl e) k = Inl e"
  by (simp add: and_then_def)

lemma latest_row_from:
  fixes key :: "'a \<Rightarrow> int"
  shows "\<exists>r. foldl (\<lambda>best r. case best of None \<Rightarrow> Some r
                           | Some b \<Rightarrow> if key b \<le> key r then Some r else Some b)
             (Some b) rows = Some r \<and>
       r \<in> insert b (set rows) \<and> key b \<le> key r \<and> (\<forall>y \<in> set rows. key y \<le> key r)"
proof (induction rows arbitrary: b)
  case Nil
  show ?case by simp
next
  case (Cons a rows)
  define b' where "b' = (if key b \<le> key a then a else b)"
  have kb: "key b \<le> key b'" and ka: "(key a :: int) \<le> key b'" and mem: "b' \<in> {a, b}"
    by (auto simp: b'_def)
  from Cons.IH [of b'] obtain r where
      r: "foldl (\<lambda>best r. case best of None \<Rightarrow> Some r
                           | Some b \<Rightarrow> if key b \<le> key r then Some r else Some b)
             (Some b') rows = Some r"
    and rin: "r \<in> insert b' (set rows)" and rb: "key b' \<le> key r"
    and rall: "\<forall>y \<in> set rows. key y \<le> key r"
    by blast
  have "foldl (\<lambda>best r. case best of None \<Rightarrow> Some r
                           | Some b \<Rightarrow> if key b \<le> key r then Some r else Some b)
             (Some b) (a # rows) = Some r"
    using r unfolding b'_def by (cases "key b \<le> key a") simp_all
  moreover have "r \<in> insert b (set (a # rows))"
    using rin mem by auto
  moreover have "key b \<le> key r"
    using kb rb by simp
  moreover have "\<forall>y \<in> set (a # rows). key y \<le> key r"
    using ka rb rall by auto
  ultimately show ?case by blast
qed

lemma latest_row_Nil:
  "latest_row key [] = None"
  by (simp add: latest_row_def)

lemma latest_row_max:
  fixes key :: "'a \<Rightarrow> int"
  assumes "rows \<noteq> []"
  shows "\<exists>r. latest_row key rows = Some r \<and> r \<in> set rows \<and> (\<forall>y \<in> set rows. key y \<le> key r)"
proof -
  from assms obtain x xs where rows: "rows = x # xs"
    by (cases rows) auto
  from latest_row_from [of key x xs] show ?thesis
    unfolding rows latest_row_def by auto
qed


lemma max_ts_nonempty:
  "xs \<noteq> [] \<Longrightarrow> max_ts xs = Some (Max (set xs))"
  by (cases xs) (simp_all add: max_ts_def Max.set_eq_fold [symmetric])

lemma is_max_ts_iff:
  assumes "x \<in> set xs"
  shows "(Some x = max_ts xs) = (\<forall>y \<in> set xs. y \<le> x)"
proof -
  from assms have ne: "xs \<noteq> []" by auto
  have "(x = Max (set xs)) = (\<forall>y \<in> set xs. y \<le> x)"
  proof
    assume "x = Max (set xs)"
    then show "\<forall>y \<in> set xs. y \<le> x" by simp
  next
    assume "\<forall>y \<in> set xs. y \<le> x"
    with assms have "Max (set xs) = x"
      by (intro Max_eqI) auto
    then show "x = Max (set xs)" by simp
  qed
  then show ?thesis
    by (simp add: max_ts_nonempty [OF ne])
qed

lemma latest_disks_filter:
  "filter (\<lambda>d. d_host_id d = hid \<and>
               Some (d_ts d) = max_ts (map d_ts (filter (\<lambda>d. d_host_id d = hid) ds))) ds =
   filter (\<lambda>d. d_host_id d = hid \<and> (\<forall>d' \<in> set ds. d_host_id d' = hid \<longrightarrow> d_ts d' \<le> d_ts d)) ds"
proof (rule filter_cong [OF refl])
  fix d
  assume d: "d \<in> set ds"
  show "(d_host_id d = hid \<and>
          Some (d_ts d) = max_ts (map d_ts (filter (\<lambda>d. d_host_id d = hid) ds))) =
        (d_host_id d = hid \<and> (\<forall>d' \<in> set ds. d_host_id d' = hid \<longrightarrow> d_ts d' \<le> d_ts d))"
  proof (cases "d_host_id d = hid")
    case False
    then show ?thesis by simp
  next
    case True
    with d have "d_ts d \<in> set (map d_ts (filter (\<lambda>d. d_host_id d = hid) ds))"
      by auto
    from is_max_ts_iff [OF this] True show ?thesis
      by auto
  qed
qed

lemma api_latest_in_range:
  assumes "- (2 ^ 63) \<le> host_id" and "host_id < 2 ^ 63"
  shows "api_latest rt st host_id =
     and_then
       (decode_extras rt (map_option e_payload
          (latest_row e_ts (filter (\<lambda>x. e_host_id x = host_id) (t_extras st)))))
       (\<lambda>extras.
          Inr \<lparr>lr_last = map_option s_cols
                  (latest_row (\<lambda>r. sc_ts (s_cols r))
                     (filter (\<lambda>r. s_host_id r = host_id) (t_samples st))),
               lr_extras = extras,
               lr_disks = map d_cols
                  (filter (\<lambda>d. d_host_id d = host_id \<and>
                      (\<forall>d' \<in> set (t_disks st). d_host_id d' = host_id \<longrightarrow> d_ts d' \<le> d_ts d))
                     (t_disks st))\<rparr>)"
  unfolding api_latest_def Let_def sqlite_int_in_range [OF assms] and_then_Inr
    latest_disks_filter
  by (rule refl)

text \<open>
  Claim C6. For a host id that binds as an SQLite integer and has at least one sample,
  in a store whose extras payloads for that host all decode, the latest query
  answers, and its answer holds: the columns of a sample row of that host whose \<open>ts\<close>
  no sample row of that host exceeds; the decoded payload of an extras row of that
  host whose \<open>ts\<close> no extras row of that host exceeds (\<open>{}\<close> when the host has no
  extras row); and the columns of exactly those disk rows of that host whose \<open>ts\<close> no
  disk row of that host exceeds. Rows of other hosts play no part.
\<close>

theorem api_latest_returns_max_ts_rows:
  assumes "- (2 ^ 63) \<le> host_id" and "host_id < 2 ^ 63"
      and "\<exists>r \<in> set (t_samples st). s_host_id r = host_id"
      and "\<forall>x \<in> set (t_extras st). e_host_id x = host_id \<longrightarrow>
             (\<exists>j. decode_extras rt (Some (e_payload x)) = Inr j)"
  shows "\<exists>res. api_latest rt st host_id = Inr res \<and>
     (\<exists>r \<in> set (t_samples st). s_host_id r = host_id \<and> lr_last res = Some (s_cols r) \<and>
        (\<forall>r' \<in> set (t_samples st). s_host_id r' = host_id \<longrightarrow>
            sc_ts (s_cols r') \<le> sc_ts (s_cols r))) \<and>
     ((\<forall>x \<in> set (t_extras st). e_host_id x \<noteq> host_id) \<longrightarrow> lr_extras res = JObj []) \<and>
     ((\<exists>x \<in> set (t_extras st). e_host_id x = host_id) \<longrightarrow>
        (\<exists>x \<in> set (t_extras st). e_host_id x = host_id \<and>
           decode_extras rt (Some (e_payload x)) = Inr (lr_extras res) \<and>
           (\<forall>x' \<in> set (t_extras st). e_host_id x' = host_id \<longrightarrow> e_ts x' \<le> e_ts x))) \<and>
     lr_disks res = map d_cols
        (filter (\<lambda>d. d_host_id d = host_id \<and>
            (\<forall>d' \<in> set (t_disks st). d_host_id d' = host_id \<longrightarrow> d_ts d' \<le> d_ts d))
           (t_disks st))"
proof -
  let ?ss = "filter (\<lambda>r. s_host_id r = host_id) (t_samples st)"
  let ?es = "filter (\<lambda>x. e_host_id x = host_id) (t_extras st)"
  from assms(3) have "?ss \<noteq> []"
    by (auto simp: filter_empty_conv)
  from latest_row_max [OF this, of "\<lambda>r. sc_ts (s_cols r)"] obtain r where
      r: "latest_row (\<lambda>r. sc_ts (s_cols r)) ?ss = Some r" and rin: "r \<in> set ?ss"
    and rmax: "\<forall>y \<in> set ?ss. sc_ts (s_cols y) \<le> sc_ts (s_cols r)"
    by blast
  have sample: "\<exists>r \<in> set (t_samples st). s_host_id r = host_id \<and>
      map_option s_cols (latest_row (\<lambda>r. sc_ts (s_cols r)) ?ss) = Some (s_cols r) \<and>
      (\<forall>r' \<in> set (t_samples st). s_host_id r' = host_id \<longrightarrow>
          sc_ts (s_cols r') \<le> sc_ts (s_cols r))"
    using r rin rmax by (intro bexI [of _ r]) auto
  show ?thesis
  proof (cases "?es = []")
    case True
    then have none: "\<forall>x \<in> set (t_extras st). e_host_id x \<noteq> host_id"
      by (auto simp: filter_empty_conv)
    have "api_latest rt st host_id =
        Inr \<lparr>lr_last = map_option s_cols (latest_row (\<lambda>r. sc_ts (s_cols r)) ?ss),
             lr_extras = JObj [],
             lr_disks = map d_cols
               (filter (\<lambda>d. d_host_id d = host_id \<and>
                   (\<forall>d' \<in> set (t_disks st). d_host_id d' = host_id \<longrightarrow> d_ts d' \<le> d_ts d))
                  (t_disks st))\<rparr>"
      unfolding api_latest_in_range [OF assms(1,2)] True
      by (simp add: latest_row_Nil decode_extras_def and_then_def)
    with sample none show ?thesis by auto
  next
    case False
    from latest_row_max [OF False, of e_ts] obtain x where
        x: "latest_row e_ts ?es = Some x" and xin: "x \<in> set ?es"
      and xmax: "\<forall>y \<in> set ?es. e_ts y \<le> e_ts x"
      by blast
    from xin assms(4) obtain j where j: "decode_extras rt (Some (e_payload x)) = Inr j"
      by auto
    have "api_latest rt st host_id =
        Inr \<lparr>lr_last = map_option s_cols (latest_row (\<lambda>r. sc_ts (s_cols r)) ?ss),
             lr_extras = j,
             lr_disks = map d_cols
               (filter (\<lambda>d. d_host_id d = host_id \<and>
                   (\<forall>d' \<in> set (t_disks st). d_host_id d' = host_id \<longrightarrow> d_ts d' \<le> d_ts d))
                  (t_disks st))\<rparr>"
      unfolding api_latest_in_range [OF assms(1,2)] x
      by (simp add: j and_then_def)
    moreover have "\<exists>x \<in> set (t_extras st). e_host_id x = host_id \<and>
           decode_extras rt (Some (e_payload x)) = Inr j \<and>
           (\<forall>x' \<in> set (t_extras st). e_host_id x' = host_id \<longrightarrow> e_ts x' \<le> e_ts x)"
      using xin xmax j by (intro bexI [of _ x]) auto
    moreover have "\<not> (\<forall>x \<in> set (t_extras st). e_host_id x \<noteq> host_id)"
      using xin by auto
    ultimately show ?thesis
      using sample by auto
  qed
qed

lemma two_disk_store_latest:
  "api_latest example_rt two_disk_store 1 =
     Inr \<lparr>lr_last = Some \<lparr>sc_ts = 130, sc_cpu = None, sc_mem_total = None, sc_mem_avail = None,
                           sc_uptime = None, sc_latency_ms = Some 7,
                           sc_net_rx_kbps = None, sc_net_tx_kbps = None\<rparr>,
          lr_extras = example_extras,
          lr_disks =
            [\<lparr>dc_device = ''/dev/sda1'', dc_used_percent = Some 40, dc_size_bytes = 1000,
              dc_free_bytes = 600, dc_mount = ''/''\<rparr>,
             \<lparr>dc_device = ''/dev/sdb1'', dc_used_percent = Some 10, dc_size_bytes = 2000,
              dc_free_bytes = 1800, dc_mount = ''/data''\<rparr>]\<rparr>"
  by (simp add: api_latest_def Let_def and_then_def sqlite_int_def two_disk_store_def
      latest_row_def max_ts_def decode_extras_def example_rt_def example_extras_text_def
      example_output_def)

theorem api_latest_witness:
  "- (2 ^ 63) \<le> (1 :: int) \<and> (1 :: int) < 2 ^ 63 \<and>
   (\<exists>r \<in> set (t_samples two_disk_store). s_host_id r = 1) \<and>
   map e_payload (t_extras two_disk_store) = [example_extras_text] \<and>
   decode_extras example_rt (Some example_extras_text) = Inr example_extras \<and>
   (\<exists>res. api_latest example_rt two_disk_store 1 = Inr res \<and>
     (\<exists>r \<in> set (t_samples two_disk_store). s_host_id r = 1 \<and> lr_last res = Some (s_cols r) \<and>
        (\<forall>r' \<in> set (t_samples two_disk_store). s_host_id r' = 1 \<longrightarrow>
            sc_ts (s_cols r') \<le> sc_ts (s_cols r))) \<and>
     ((\<forall>x \<in> set (t_extras two_disk_store). e_host_id x \<noteq> 1) \<longrightarrow> lr_extras res = JObj []) \<and>
     ((\<exists>x \<in> set (t_extras two_disk_store). e_host_id x = 1) \<longrightarrow>
        (\<exists>x \<in> set (t_extras two_disk_store). e_host_id x = 1 \<and>
           decode_extras example_rt (Some (e_payload x)) = Inr (lr_extras res) \<and>
           (\<forall>x' \<in> set (t_extras two_disk_store). e_host_id x' = 1 \<longrightarrow> e_ts x' \<le> e_ts x))) \<and>
     lr_disks res = map d_cols
        (filter (\<lambda>d. d_host_id d = 1 \<and>
            (\<forall>d' \<in> set (t_disks two_disk_store). d_host_id d' = 1 \<longrightarrow> d_ts d' \<le> d_ts d))
           (t_disks two_disk_store)))"
proof -
  have r1: "- (2 ^ 63) \<le> (1 :: int)" and r2: "(1 :: int) < 2 ^ 63"
    by simp_all
  have smp: "\<exists>r \<in> set (t_samples two_disk_store). s_host_id r = 1"
    by (simp add: two_disk_store_def)
  have pl: "map e_payload (t_extras two_disk_store) = [example_extras_text]"
    by (simp add: two_disk_store_def)
  have dec: "decode_extras example_rt (Some example_extras_text) = Inr example_extras"
    by (simp add: decode_extras_def example_rt_def example_extras_text_def example_output_def)
  have all: "\<forall>x \<in> set (t_extras two_disk_store). e_host_id x = 1 \<longrightarrow>
             (\<exists>j. decode_extras example_rt (Some (e_payload x)) = Inr j)"
    using dec by (simp add: two_disk_store_def)
  from api_latest_returns_max_ts_rows [OF r1 r2 smp all] r1 r2 smp pl dec
  show ?thesis by blast
qed

text \<open>
  Claim C7, as amended. Neither query validates that the host exists: the answers of
  the series and the latest query do not depend on the \<^verbatim>\<open>hosts\<close> table at all, and
  with no rows to select they are the empty series and the empty snapshot, not an
  error. The only processing of parameters is the conversion of \<open>minutes\<close> into the
  cutoff \<open>now - minutes * 60\<close> and the driver's range check of the bound integers.
\<close>

theorem queries_do_not_read_hosts:
  "api_series (st\<lparr>t_hosts := hs, t_hosts_seq := q\<rparr>) now host_id minutes
     = api_series st now host_id minutes \<and>
   api_latest rt (st\<lparr>t_hosts := hs, t_hosts_seq := q\<rparr>) host_id = api_latest rt st host_id \<and>
   api_series \<lparr>t_hosts = hs, t_hosts_seq = q, t_samples = [], t_disks = [], t_extras = []\<rparr>
       now host_id minutes
     = and_then (sqlite_int host_id) (\<lambda>hid.
       and_then (sqlite_int (now - minutes * 60)) (\<lambda>t.
       Inr \<lparr>sr_samples = [], sr_disks = []\<rparr>)) \<and>
   api_latest rt \<lparr>t_hosts = hs, t_hosts_seq = q, t_samples = [], t_disks = [], t_extras = []\<rparr>
       host_id
     = and_then (sqlite_int host_id) (\<lambda>hid.
       Inr \<lparr>lr_last = None, lr_extras = JObj [], lr_disks = []\<rparr>)"
  by (simp add: api_series_def api_latest_def Let_def and_then_def latest_row_def max_ts_def
      decode_extras_def split: sum.splits)

text \<open>
  The claim as first stated says the queries validate that the requested host exists.
  In the empty store there is no host at all, and both queries answer a request for
  host 42 normally, with empty results.
\<close>

theorem unknown_host_is_not_rejected:
  "t_hosts (empty_store :: int store) = [] \<and>
   api_series (empty_store :: int store) 1000 42 120 = Inr \<lparr>sr_samples = [], sr_disks = []\<rparr> \<and>
   api_latest example_rt empty_store 42
     = Inr \<lparr>lr_last = None, lr_extras = JObj [], lr_disks = []\<rparr>"
  by (simp add: api_series_def api_latest_def Let_def and_then_def latest_row_def max_ts_def
      decode_extras_def empty_store_def sqlite_int_def)

section \<open>Extras through a poll and the latest query\<close>



lemma example_poll_ok:
  assumes reg: "select_host_id (t_hosts st) ''web-1'' = Inr hid"
  shows "poll_once example_rt (env_ok now) web1 st =
     (None, st\<lparr>t_samples := t_samples st @
                [\<lparr>s_host_id = hid,
                  s_cols = \<lparr>sc_ts = now, sc_cpu = Some 12, sc_mem_total = Some 0,
                            sc_mem_avail = Some 0, sc_uptime = Some 0, sc_latency_ms = Some 7,
                            sc_net_rx_kbps = None, sc_net_tx_kbps = None\<rparr>\<rparr>],
              t_extras := t_extras st @
                [\<lparr>e_host_id = hid, e_ts = now, e_payload = example_extras_text\<rparr>]\<rparr>)"
proof -
  have os: "h_os web1 = ''linux''" "h_ssh web1 = Some \<lparr>ssh_username = ''ops'',
      ssh_password = Some ''pw'', ssh_private_key = None, ssh_port = 22\<rparr>"
    by (simp_all add: web1_def)
  have body: "ssh_body (pe_ssh (env_ok now :: int poll_env) 1) = Inr example_output"
    by (simp add: env_ok_def)
  have run: "r_outcome (SSHClient_run (pe_ssh (env_ok now :: int poll_env))) = Inr example_output"
    by (simp only: ssh_run_first_ok [of "pe_ssh (env_ok now :: int poll_env)" example_output,
        OF body] retry_result.simps)
  have parsed: "parse_output example_rt example_output init_vars =
      (None, init_vars\<lparr>v_cpu := Some 12, v_mem_total := Some 0, v_mem_avail := Some 0,
              v_uptime := Some 0,
              v_disks := dict_get [(''cpu_percent'', JInt 12), (''extras'', example_extras)]
                           ''disks'' (JArr []),
              v_net_rx := None, v_net_tx := None,
              v_extras_payload := Some (rt_dumps example_rt (JObj [(''load'', JInt 3)]))\<rparr>)"
    using example_parse_facts
    by (simp add: parse_output_def on_ok_def parse_payload_ok)
  have name: "h_name web1 = ''web-1''"
    by (simp add: web1_def)
  show ?thesis
    unfolding poll_once_linux [OF os] linux_collect_ssh_ok [OF run] parsed snd_conv
    using reg
    by (simp add: commit_def commit_tx_def and_then_def insert_sample_def insert_disks_def
        insert_extras_def init_vars_def sqlite_int_def sqlite_real_def dict_get_def name
        env_ok_def example_rt_def example_extras_def example_extras_text_def)
qed

lemma example_poll_down_any:
  assumes reg: "select_host_id (t_hosts st) ''web-1'' = Inr hid"
  shows "poll_once example_rt (env_down now) web1 st =
     (None, st\<lparr>t_samples := t_samples st @
           [\<lparr>s_host_id = hid,
             s_cols = \<lparr>sc_ts = now, sc_cpu = None, sc_mem_total = None, sc_mem_avail = None,
                       sc_uptime = None, sc_latency_ms = Some 7,
                       sc_net_rx_kbps = None, sc_net_tx_kbps = None\<rparr>\<rparr>]\<rparr>)"
proof -
  have run: "r_outcome (SSHClient_run (pe_ssh (env_down now :: int poll_env)))
      = Inl (RetryError (TransportError ''timed out''))"
    using ssh_run_twice [of "pe_ssh (env_down now :: int poll_env)" "TransportError ''timed out''"]
    by (simp add: env_down_def)
  have os: "h_os web1 = ''linux''" "h_ssh web1 = Some \<lparr>ssh_username = ''ops'',
      ssh_password = Some ''pw'', ssh_private_key = None, ssh_port = 22\<rparr>"
    by (simp_all add: web1_def)
  have reg': "select_host_id (t_hosts st) (h_name web1) = Inr hid"
    using reg by (simp add: web1_def)
  show ?thesis
    unfolding poll_once_linux [OF os] linux_collect_ssh_failed [OF run] snd_conv
      commit_init_vars [OF reg']
    by (simp add: env_down_def example_rt_def sqlite_real_def)
qed



text \<open>
  Claim C10. Register \<open>web-1\<close> and \<open>win-1\<close>, poll \<open>web-1\<close> successfully at time 100
  and poll it again at time 130 with the host unreachable. Both polls return. The
  second commits a sample and no extras row, so the only extras row of the host is the
  one of time 100. The latest query then pairs the sample of time 130 with the extras
  payload stored at time 100: its parts are the maxima of their own tables, not one
  cycle's snapshot.
\<close>

theorem latest_mixes_cycles:
  "fst (poll_once example_rt (env_ok 100) web1 (register_hosts [web1, win1] empty_store)) = None \<and>
   fst (poll_once example_rt (env_down 130) web1
          (snd (poll_once example_rt (env_ok 100) web1 (register_hosts [web1, win1] empty_store))))
     = None \<and>
   t_extras (snd (poll_once example_rt (env_down 130) web1
          (snd (poll_once example_rt (env_ok 100) web1 (register_hosts [web1, win1] empty_store)))))
     = [\<lparr>e_host_id = 1, e_ts = 100, e_payload = example_extras_text\<rparr>] \<and>
   api_latest example_rt
     (snd (poll_once example_rt (env_down 130) web1
          (snd (poll_once example_rt (env_ok 100) web1 (register_hosts [web1, win1] empty_store)))))
     1
     = Inr \<lparr>lr_last = Some \<lparr>sc_ts = 130, sc_cpu = None, sc_mem_total = None,
                             sc_mem_avail = None, sc_uptime = None, sc_latency_ms = Some 7,
                             sc_net_rx_kbps = None, sc_net_tx_kbps = None\<rparr>,
            lr_extras = example_extras, lr_disks = []\<rparr> \<and>
   (100 :: int) < 130"
proof -
  let ?st = "register_hosts [web1, win1] (empty_store :: int store)"
  have reg: "select_host_id (t_hosts ?st) ''web-1'' = Inr 1"
    using example_hosts_registered by (simp add: web1_def)
  define st1 where "st1 = ?st\<lparr>t_samples := t_samples ?st @
                [\<lparr>s_host_id = 1,
                  s_cols = \<lparr>sc_ts = 100, sc_cpu = Some 12, sc_mem_total = Some 0,
                            sc_mem_avail = Some 0, sc_uptime = Some 0, sc_latency_ms = Some 7,
                            sc_net_rx_kbps = None, sc_net_tx_kbps = None\<rparr>\<rparr>],
              t_extras := t_extras ?st @
                [\<lparr>e_host_id = 1, e_ts = 100, e_payload = example_extras_text\<rparr>]\<rparr>"
  have p1: "poll_once example_rt (env_ok 100) web1 ?st = (None, st1)"
    unfolding st1_def by (rule example_poll_ok [OF reg])
  have reg1: "select_host_id (t_hosts st1) ''web-1'' = Inr 1"
    using reg by (simp add: st1_def)
  note p2 = example_poll_down_any [OF reg1, of 130]
  have latest: "api_latest example_rt (snd (poll_once example_rt (env_down 130) web1 st1)) 1
     = Inr \<lparr>lr_last = Some \<lparr>sc_ts = 130, sc_cpu = None, sc_mem_total = None,
                             sc_mem_avail = None, sc_uptime = None, sc_latency_ms = Some 7,
                             sc_net_rx_kbps = None, sc_net_tx_kbps = None\<rparr>,
            lr_extras = example_extras, lr_disks = []\<rparr>"
    apply (simp only: p2 snd_conv)
    apply (simp add: st1_def registered_example api_latest_def Let_def and_then_def
        sqlite_int_def latest_row_def max_ts_def decode_extras_def example_rt_def
        example_extras_text_def example_output_def)
    done
  have rows: "t_extras (snd (poll_once example_rt (env_down 130) web1 st1))
     = [\<lparr>e_host_id = 1, e_ts = 100, e_payload = example_extras_text\<rparr>]"
    apply (simp only: p2 snd_conv)
    apply (simp add: st1_def registered_example)
    done
  have ret2: "fst (poll_once example_rt (env_down 130) web1 st1) = None"
    unfolding p2 by simp
  show ?thesis
    unfolding p1 snd_conv fst_conv
    using latest rows ret2 by simp
qed

end
